theory Spec2Isabelle
  imports Complex_Main
begin

section \<open>Station simulator (station\_simulator.py)\<close>

text \<open>
  The simulator reads two things from outside the program: the module-level generator of
  Python's \<^verbatim>\<open>random\<close> and the wall clock. Both are made explicit. The generator is an
  endless supply of raw integers with a cursor; \<^verbatim>\<open>random.random()\<close> is a 53-bit integer
  divided by \<open>2^53\<close>, \<^verbatim>\<open>random.uniform(a, b)\<close> is \<open>a + (b - a) * random()\<close> and
  \<^verbatim>\<open>random.randint(a, b)\<close> is \<open>a\<close> plus a draw below \<open>b - a + 1\<close>, as the library
  documents them. The clock is the sequence of strings that
  \<^verbatim>\<open>datetime.utcnow().isoformat()\<close> returns, with a cursor of its own. Python floats are
  modelled by the real numbers they denote.
\<close>

record sim_world =
  entropy :: "nat \<Rightarrow> nat"
  cursor :: nat
  utcnow_isoformat :: "nat \<Rightarrow> string"
  clock_reads :: nat

definition random :: "sim_world \<Rightarrow> real \<times> sim_world" where
  "random w =
     (real (entropy w (cursor w) mod 2 ^ 53) / 2 ^ 53, w\<lparr>cursor := Suc (cursor w)\<rparr>)"

definition uniform :: "real \<Rightarrow> real \<Rightarrow> sim_world \<Rightarrow> real \<times> sim_world" where
  "uniform a b w = (let (r, w') = random w in (a + (b - a) * r, w'))"

definition randint :: "int \<Rightarrow> int \<Rightarrow> sim_world \<Rightarrow> int \<times> sim_world" where
  "randint a b w =
     (a + int (entropy w (cursor w) mod nat (b - a + 1)), w\<lparr>cursor := Suc (cursor w)\<rparr>)"

definition utcnow_Z :: "sim_world \<Rightarrow> string \<times> sim_world" where
  "utcnow_Z w =
     (utcnow_isoformat w (clock_reads w) @ ''Z'', w\<lparr>clock_reads := Suc (clock_reads w)\<rparr>)"

record station =
  station_id :: string
  battery_available :: int
  battery_charging :: int
  temperature :: real
  humidity :: real
  status :: string
  total_swaps_today :: int
  last_swap_time :: string

text \<open>\<^verbatim>\<open>BatterySwapStation.__init__\<close>: the draws are made in the order of the source.\<close>

definition init_station :: "string \<Rightarrow> sim_world \<Rightarrow> station \<times> sim_world" where
  "init_station sid w0 =
     (let (avail, w1) = randint 8 15 w0;
          (charging, w2) = randint 2 6 w1;
          (temp, w3) = uniform 20 30 w2;
          (hum, w4) = uniform 30 60 w3;
          (swaps, w5) = randint 0 50 w4;
          (now, w6) = utcnow_Z w5
      in (\<lparr>station_id = sid, battery_available = avail, battery_charging = charging,
            temperature = temp, humidity = hum, status = ''operational'',
            total_swaps_today = swaps, last_swap_time = now\<rparr>, w6))"

text \<open>
  In each rule the test on the state comes first and \<^verbatim>\<open>and\<close> short-circuits, so the
  generator is advanced only when the state test holds.
\<close>

definition simulate_battery_charging :: "station \<Rightarrow> sim_world \<Rightarrow> station \<times> sim_world" where
  "simulate_battery_charging s w =
     (if battery_charging s > 0 then
        (let (r, w') = random w in
         if r < 0.2 then
           (s\<lparr>battery_charging := battery_charging s - 1,
              battery_available := battery_available s + 1\<rparr>, w')
         else (s, w'))
      else (s, w))"

definition simulate_battery_swap :: "station \<Rightarrow> sim_world \<Rightarrow> station \<times> sim_world" where
  "simulate_battery_swap s w =
     (if battery_available s > 0 then
        (let (r, w') = random w in
         if r < 0.15 then
           (let (now, w'') = utcnow_Z w' in
            (s\<lparr>battery_available := battery_available s - 1,
               battery_charging := battery_charging s + 1,
               total_swaps_today := total_swaps_today s + 1,
               last_swap_time := now\<rparr>, w''))
         else (s, w'))
      else (s, w))"

definition simulate_temperature_change :: "station \<Rightarrow> sim_world \<Rightarrow> station \<times> sim_world" where
  "simulate_temperature_change s w =
     (let (change, w') = uniform (- 0.5) 0.5 w in
      (s\<lparr>temperature := max 15.0 (min 35.0 (temperature s + change))\<rparr>, w'))"

definition simulate_humidity_change :: "station \<Rightarrow> sim_world \<Rightarrow> station \<times> sim_world" where
  "simulate_humidity_change s w =
     (let (change, w') = uniform (- 2.0) 2.0 w in
      (s\<lparr>humidity := max 20.0 (min 80.0 (humidity s + change))\<rparr>, w'))"

definition simulate_status_change :: "station \<Rightarrow> sim_world \<Rightarrow> station \<times> sim_world" where
  "simulate_status_change s w =
     (if status s = ''operational'' then
        (let (r, w') = random w in
         if r < 0.01 then (s\<lparr>status := ''maintenance''\<rparr>, w') else (s, w'))
      else if status s = ''maintenance'' then
        (let (r, w') = random w in
         if r < 0.10 then (s\<lparr>status := ''operational''\<rparr>, w') else (s, w'))
      else (s, w))"

text \<open>\<^verbatim>\<open>BatterySwapStation.update\<close>: the five rules in their fixed order.\<close>

definition update :: "station \<Rightarrow> sim_world \<Rightarrow> station \<times> sim_world" where
  "update s0 w0 =
     (let (s1, w1) = simulate_battery_charging s0 w0;
          (s2, w2) = simulate_battery_swap s1 w1;
          (s3, w3) = simulate_temperature_change s2 w2;
          (s4, w4) = simulate_humidity_change s3 w3
      in simulate_status_change s4 w4)"

text \<open>\<open>n\<close> ticks: \<open>n\<close> successive calls of \<^verbatim>\<open>update\<close> on the same station.\<close>

fun ticks :: "nat \<Rightarrow> station \<Rightarrow> sim_world \<Rightarrow> station \<times> sim_world" where
  "ticks 0 s w = (s, w)"
| "ticks (Suc n) s w = (let (s', w') = update s w in ticks n s' w')"

section \<open>Python values, dictionaries and exceptions\<close>

text \<open>
  A telemetry event is a decoded JSON object. JSON values are \<^verbatim>\<open>None\<close>, booleans,
  integers, (finite) floats, strings, lists and dictionaries; \<open>PDecimal\<close> is Python's
  \<^verbatim>\<open>Decimal\<close>, which only the numeric normalisation for the fast store creates. A
  dictionary is the list of its items in insertion order.
\<close>

datatype pyval =
    PNone
  | PBool bool
  | PInt int
  | PFloat real
  | PDecimal real
  | PStr string
  | PList "pyval list"
  | PDict "(string \<times> pyval) list"

type_synonym dict = "(string \<times> pyval) list"

datatype exn =
    KeyError string
  | AttributeError
  | ValueError
  | ClientError
  | ParamValidationError
  | InvalidOperation

text \<open>\<^verbatim>\<open>d[k]\<close> raises \<^verbatim>\<open>KeyError\<close> on a missing key; \<^verbatim>\<open>d.get(k)\<close> gives \<^verbatim>\<open>None\<close>.\<close>

definition getitem :: "dict \<Rightarrow> string \<Rightarrow> exn + pyval" where
  "getitem d k = (case map_of d k of None \<Rightarrow> Inl (KeyError k) | Some v \<Rightarrow> Inr v)"

definition dict_get :: "dict \<Rightarrow> string \<Rightarrow> pyval" where
  "dict_get d k = (case map_of d k of None \<Rightarrow> PNone | Some v \<Rightarrow> v)"

text \<open>\<^verbatim>\<open>d[k] = v\<close>: an existing key keeps its position, a new key goes to the end.\<close>

fun dict_set :: "('k \<times> 'v) list \<Rightarrow> 'k \<Rightarrow> 'v \<Rightarrow> ('k \<times> 'v) list" where
  "dict_set [] k v = [(k, v)]"
| "dict_set ((k', v') # d) k v =
     (if k' = k then (k, v) # d else (k', v') # dict_set d k v)"

text \<open>
  A serialised JSON document is represented by the value it was serialised from:
  \<^verbatim>\<open>json.dumps\<close> only fixes the layout of the text.
\<close>

datatype json_text = Json pyval

definition json_dumps :: "pyval \<Rightarrow> json_text" where
  "json_dumps v = Json v"

section \<open>Strings, numbers and timestamps\<close>

text \<open>
  \<^verbatim>\<open>str.strip()\<close> removes leading and trailing whitespace. A character is a code
  point below 256; these are the ones \<^verbatim>\<open>str.isspace\<close> holds of.
\<close>

definition is_space :: "char \<Rightarrow> bool" where
  "is_space c \<longleftrightarrow> c \<in> set [CHR '' '', CHR 0x09, CHR 0x0A, CHR 0x0B, CHR 0x0C, CHR 0x0D,
                              CHR 0x1C, CHR 0x1D, CHR 0x1E, CHR 0x1F, CHR 0x85, CHR 0xA0]"

definition strip :: "string \<Rightarrow> string" where
  "strip s = rev (dropWhile is_space (rev (dropWhile is_space s)))"

text \<open>
  \<^verbatim>\<open>value.replace('Z', '+00:00')\<close>: every \<^verbatim>\<open>Z\<close> is replaced. Only a string has the
  method; on any other JSON value the attribute lookup raises \<^verbatim>\<open>AttributeError\<close>.
\<close>

definition str_replace :: "char \<Rightarrow> string \<Rightarrow> string \<Rightarrow> string" where
  "str_replace old new s = concat (map (\<lambda>c. if c = old then new else [c]) s)"

definition replace_Z :: "pyval \<Rightarrow> exn + string" where
  "replace_Z v =
     (case v of PStr s \<Rightarrow> Inr (str_replace (CHR ''Z'') ''+00:00'' s) | _ \<Rightarrow> Inl AttributeError)"

definition digit_char :: "nat \<Rightarrow> char" where
  "digit_char n = ''0123456789abcdef'' ! (n mod 16)"

definition digit_val :: "char \<Rightarrow> nat option" where
  "digit_val c = map_of (zip ''0123456789'' [0, 1, 2, 3, 4, 5, 6, 7, 8, 9]) c"

text \<open>The value of a non-empty string of decimal digits.\<close>

fun number_acc :: "nat \<Rightarrow> string \<Rightarrow> nat option" where
  "number_acc a [] = Some a"
| "number_acc a (c # cs) =
     (case digit_val c of None \<Rightarrow> None | Some d \<Rightarrow> number_acc (10 * a + d) cs)"

definition number :: "string \<Rightarrow> nat option" where
  "number s = (if s = [] then None else number_acc 0 s)"

text \<open>\<^verbatim>\<open>str(n)\<close> for a natural number, and the format \<^verbatim>\<open>{n:02d}\<close>.\<close>

fun str_nat :: "nat \<Rightarrow> string" where
  "str_nat n = (if n < 10 then [digit_char n] else str_nat (n div 10) @ [digit_char (n mod 10)])"

declare str_nat.simps [simp del]

definition pad2 :: "nat \<Rightarrow> string" where
  "pad2 n = (if n < 10 then CHR ''0'' # str_nat n else str_nat n)"

record datetime =
  year :: nat
  month :: nat
  day :: nat
  hour :: nat
  minute :: nat
  second :: nat
  microsecond :: nat
  utcoffset :: "int option"

definition is_leap :: "nat \<Rightarrow> bool" where
  "is_leap y \<longleftrightarrow> y mod 4 = 0 \<and> (y mod 100 \<noteq> 0 \<or> y mod 400 = 0)"

definition days_in_month :: "nat \<Rightarrow> nat \<Rightarrow> nat" where
  "days_in_month y m =
     (if m = 2 then (if is_leap y then 29 else 28)
      else if m \<in> set [4, 6, 9, 11] then 30 else 31)"

text \<open>
  \<^verbatim>\<open>datetime.fromisoformat\<close> is library code. It is modelled on the grammar the library
  documents for Python 3.9 and 3.10,
  \<^verbatim>\<open>YYYY-MM-DD[*HH[:MM[:SS[.fff[fff]]]][+HH:MM[:SS[.ffffff]]]]\<close>, where \<^verbatim>\<open>*\<close> is any
  single character, followed by the range checks of the \<^verbatim>\<open>datetime\<close> constructor.
  Every failure is a \<^verbatim>\<open>ValueError\<close>. The offset is kept in microseconds.
\<close>

definition parse_hh_mm_ss_ff :: "string \<Rightarrow> (nat \<times> nat \<times> nat \<times> nat) option" where
  "parse_hh_mm_ss_ff s =
     (let n = length s in
      if n = 2 then
        (case number s of None \<Rightarrow> None | Some h \<Rightarrow> Some (h, 0, 0, 0))
      else if n = 5 \<and> s ! 2 = CHR '':'' then
        (case (number (take 2 s), number (drop 3 s)) of
           (Some h, Some m) \<Rightarrow> Some (h, m, 0, 0) | _ \<Rightarrow> None)
      else if n = 8 \<and> s ! 2 = CHR '':'' \<and> s ! 5 = CHR '':'' then
        (case (number (take 2 s), number (take 2 (drop 3 s)), number (drop 6 s)) of
           (Some h, Some m, Some sec) \<Rightarrow> Some (h, m, sec, 0) | _ \<Rightarrow> None)
      else if (n = 12 \<or> n = 15) \<and> s ! 2 = CHR '':'' \<and> s ! 5 = CHR '':'' \<and> s ! 8 = CHR ''.'' then
        (case (number (take 2 s), number (take 2 (drop 3 s)), number (take 2 (drop 6 s)),
               number (drop 9 s)) of
           (Some h, Some m, Some sec, Some f) \<Rightarrow>
             Some (h, m, sec, if n = 12 then f * 1000 else f)
         | _ \<Rightarrow> None)
      else None)"

definition parse_isoformat_date :: "string \<Rightarrow> (nat \<times> nat \<times> nat) option" where
  "parse_isoformat_date s =
     (if length s = 10 \<and> s ! 4 = CHR ''-'' \<and> s ! 7 = CHR ''-'' then
        (case (number (take 4 s), number (take 2 (drop 5 s)), number (drop 8 s)) of
           (Some y, Some m, Some d) \<Rightarrow> Some (y, m, d) | _ \<Rightarrow> None)
      else None)"

definition is_sign :: "char \<Rightarrow> bool" where
  "is_sign c \<longleftrightarrow> c = CHR ''+'' \<or> c = CHR ''-''"

definition parse_isoformat_time ::
  "string \<Rightarrow> ((nat \<times> nat \<times> nat \<times> nat) \<times> int option) option" where
  "parse_isoformat_time tstr =
     (let timestr = takeWhile (\<lambda>c. \<not> is_sign c) tstr;
          rest = dropWhile (\<lambda>c. \<not> is_sign c) tstr
      in case parse_hh_mm_ss_ff timestr of
           None \<Rightarrow> None
         | Some t \<Rightarrow>
             (case rest of
                [] \<Rightarrow> Some (t, None)
              | sign # tzstr \<Rightarrow>
                  if length tzstr \<in> set [5, 8, 15] then
                    (case parse_hh_mm_ss_ff tzstr of
                       None \<Rightarrow> None
                     | Some (h, m, sec, us) \<Rightarrow>
                         (let off = (if sign = CHR ''-'' then - 1 else 1) *
                                    (int (h * 3600 + m * 60 + sec) * 1000000 + int us)
                          in if - 86400000000 < off \<and> off < 86400000000
                             then Some (t, Some off) else None))
                  else None))"

definition new_datetime ::
  "nat \<times> nat \<times> nat \<Rightarrow> (nat \<times> nat \<times> nat \<times> nat) \<times> int option \<Rightarrow> exn + datetime" where
  "new_datetime d t =
     (case (d, t) of ((y, m, dd), ((h, mi, sec, us), off)) \<Rightarrow>
        if 1 \<le> y \<and> y \<le> 9999 \<and> 1 \<le> m \<and> m \<le> 12 \<and> 1 \<le> dd \<and> dd \<le> days_in_month y m \<and>
           h < 24 \<and> mi < 60 \<and> sec < 60 \<and> us < 1000000
        then Inr \<lparr>year = y, month = m, day = dd, hour = h, minute = mi, second = sec,
                  microsecond = us, utcoffset = off\<rparr>
        else Inl ValueError)"

definition fromisoformat :: "string \<Rightarrow> exn + datetime" where
  "fromisoformat s =
     (case parse_isoformat_date (take 10 s) of
        None \<Rightarrow> Inl ValueError
      | Some d \<Rightarrow>
          if length s = 10 then new_datetime d ((0, 0, 0, 0), None)
          else (case parse_isoformat_time (drop 11 s) of
                  None \<Rightarrow> Inl ValueError
                | Some t \<Rightarrow> new_datetime d t))"

text \<open>
  \<^verbatim>\<open>timestamp.strftime('%Y%m%d_%H%M%S')\<close>. \<^verbatim>\<open>%Y\<close> is the year in decimal; below 1000
  its width depends on the C library, and nothing below relies on it there.
\<close>

definition strftime_Ymd_HMS :: "datetime \<Rightarrow> string" where
  "strftime_Ymd_HMS t =
     str_nat (year t) @ pad2 (month t) @ pad2 (day t) @ ''_'' @
     pad2 (hour t) @ pad2 (minute t) @ pad2 (second t)"

text \<open>
  \<^verbatim>\<open>uuid.uuid4().hex\<close>: the 32 lower-case hexadecimal digits of the UUID's 128-bit
  integer, most significant first.
\<close>

fun hex_digits :: "nat \<Rightarrow> nat \<Rightarrow> string" where
  "hex_digits 0 n = []"
| "hex_digits (Suc k) n = hex_digits k (n div 16) @ [digit_char (n mod 16)]"

definition uuid_hex :: "nat \<Rightarrow> string" where
  "uuid_hex u = hex_digits 32 u"

section \<open>Telemetry handler (lambda\_telemetry\_handler.py)\<close>

subsection \<open>Validation\<close>

definition required_fields :: "string list" where
  "required_fields = [''station_id'', ''battery_available'', ''timestamp'']"

text \<open>The loop over the required fields: the first one that is not a key of the record.\<close>

fun first_missing :: "dict \<Rightarrow> string list \<Rightarrow> string option" where
  "first_missing data [] = None"
| "first_missing data (field # others) =
     (if map_of data field = None then Some field else first_missing data others)"

text \<open>
  \<^verbatim>\<open>isinstance(v, (int, float))\<close>: \<^verbatim>\<open>bool\<close> is a subclass of \<^verbatim>\<open>int\<close>. The comparison
  \<^verbatim>\<open>v < 0\<close> is only evaluated on such values (\<^verbatim>\<open>or\<close> short-circuits); \<^verbatim>\<open>True\<close> and
  \<^verbatim>\<open>False\<close> compare as 1 and 0.
\<close>

fun isinstance_int_float :: "pyval \<Rightarrow> bool" where
  "isinstance_int_float (PInt n) = True"
| "isinstance_int_float (PFloat x) = True"
| "isinstance_int_float (PBool b) = True"
| "isinstance_int_float v = False"

fun less_zero :: "pyval \<Rightarrow> bool" where
  "less_zero (PInt n) = (n < 0)"
| "less_zero (PFloat x) = (x < 0)"
| "less_zero v = False"

text \<open>\<^verbatim>\<open>datetime.fromisoformat(data['timestamp'].replace('Z', '+00:00'))\<close>.\<close>

definition parse_timestamp :: "dict \<Rightarrow> exn + datetime" where
  "parse_timestamp data =
     (case getitem data ''timestamp'' of
        Inl ex \<Rightarrow> Inl ex
      | Inr v \<Rightarrow> (case replace_Z v of Inl ex \<Rightarrow> Inl ex | Inr s \<Rightarrow> fromisoformat s))"

text \<open>
  \<^verbatim>\<open>validate_telemetry\<close>. The result is \<open>Inr (is_valid, error_message)\<close>, or \<open>Inl\<close> an
  exception that leaves the function: the \<^verbatim>\<open>try\<close> around the timestamp catches
  \<^verbatim>\<open>ValueError\<close> and \<^verbatim>\<open>AttributeError\<close> only.
\<close>

definition validate_telemetry :: "dict \<Rightarrow> exn + bool \<times> string option" where
  "validate_telemetry data =
     (case first_missing data required_fields of
        Some field \<Rightarrow> Inr (False, Some (''Missing required field: '' @ field))
      | None \<Rightarrow>
          if (case dict_get data ''station_id'' of PStr s \<Rightarrow> strip s = [] | _ \<Rightarrow> True)
          then Inr (False, Some ''station_id must be a non-empty string'')
          else if \<not> isinstance_int_float (dict_get data ''battery_available'') \<or>
                  less_zero (dict_get data ''battery_available'')
          then Inr (False, Some ''battery_available must be a non-negative number'')
          else (case parse_timestamp data of
                  Inr t \<Rightarrow> Inr (True, None)
                | Inl ex \<Rightarrow>
                    if ex = ValueError \<or> ex = AttributeError
                    then Inr (False, Some ''timestamp must be valid ISO-8601 format'')
                    else Inl ex))"

subsection \<open>The two stores and the invocation environment\<close>

text \<open>
  The fast store is a table keyed by \<^verbatim>\<open>station_id\<close> (the key the query handler reads
  by); the archival store maps object keys to objects. Both are external: a put replaces
  whatever is stored under the key. The two counters record every call of
  \<^verbatim>\<open>put_item\<close> and \<^verbatim>\<open>put_object\<close>, successful or not.

  What one invocation reads from outside is its environment: whether each store accepts
  the call made in this invocation, the three readings of
  \<^verbatim>\<open>datetime.utcnow().isoformat()\<close>, and the integer of \<^verbatim>\<open>uuid.uuid4()\<close>.
\<close>

record s3_object =
  Body :: json_text
  ContentType :: string
  Metadata :: "(string \<times> string) list"

record world =
  table :: "string \<rightharpoonup> dict"
  bucket :: "string \<rightharpoonup> s3_object"
  put_item_calls :: nat
  put_object_calls :: nat

record env =
  dynamodb_up :: bool
  s3_up :: bool
  processed_at :: string
  ingestion_time :: string
  response_time :: string
  uuid4 :: nat

definition put_item :: "env \<Rightarrow> dict \<Rightarrow> world \<Rightarrow> (exn + unit) \<times> world" where
  "put_item e item w =
     (let w' = w\<lparr>put_item_calls := Suc (put_item_calls w)\<rparr> in
      case map_of item ''station_id'' of
        Some (PStr k) \<Rightarrow>
          if dynamodb_up e \<and> k \<noteq> [] then (Inr (), w'\<lparr>table := (table w')(k \<mapsto> item)\<rparr>)
          else (Inl ClientError, w')
      | _ \<Rightarrow> (Inl ClientError, w'))"

definition put_object ::
  "env \<Rightarrow> string \<Rightarrow> json_text \<Rightarrow> string \<Rightarrow> (string \<times> string) list \<Rightarrow> world
     \<Rightarrow> (exn + unit) \<times> world" where
  "put_object e key body_text ctype meta w =
     (let w' = w\<lparr>put_object_calls := Suc (put_object_calls w)\<rparr> in
      if s3_up e
      then (Inr (), w'\<lparr>bucket := (bucket w')(key \<mapsto>
              \<lparr>Body = body_text, ContentType = ctype, Metadata = meta\<rparr>)\<rparr>)
      else (Inl ClientError, w'))"

subsection \<open>Fast-store write\<close>

text \<open>
  \<^verbatim>\<open>convert_floats_to_decimal\<close> builds a new dictionary (\<^verbatim>\<open>converted = {}\<close>); the
  record it is given is not changed. \<open>convert_value\<close> is the body of its loop: a float
  becomes a \<^verbatim>\<open>Decimal\<close>, a nested dictionary is converted recursively, and in a list
  only the floats directly in it are converted.
\<close>

fun convert_value :: "pyval \<Rightarrow> pyval" where
  "convert_value (PFloat x) = PDecimal x"
| "convert_value (PDict d) = PDict (map (\<lambda>kv. (fst kv, convert_value (snd kv))) d)"
| "convert_value (PList xs) =
     PList (map (\<lambda>item. case item of PFloat x \<Rightarrow> PDecimal x | _ \<Rightarrow> item) xs)"
| "convert_value v = v"

definition convert_floats_to_decimal :: "dict \<Rightarrow> dict" where
  "convert_floats_to_decimal data = map (\<lambda>kv. (fst kv, convert_value (snd kv))) data"

text \<open>The \<^verbatim>\<open>try\<close> block of \<^verbatim>\<open>store_in_dynamodb\<close>, then the function with its handler.\<close>

definition store_in_dynamodb_try :: "env \<Rightarrow> dict \<Rightarrow> world \<Rightarrow> (exn + bool) \<times> world" where
  "store_in_dynamodb_try e data w =
     (let data_to_store = convert_floats_to_decimal data;
          data_to_store = dict_set data_to_store ''lambda_processed_at'' (PStr (processed_at e))
      in case put_item e data_to_store w of
           (Inl ex, w') \<Rightarrow> (Inl ex, w')
         | (Inr u, w') \<Rightarrow>
             (case getitem data ''station_id'' of
                Inl ex \<Rightarrow> (Inl ex, w')
              | Inr sid \<Rightarrow> (Inr True, w')))"

definition store_in_dynamodb :: "env \<Rightarrow> dict \<Rightarrow> world \<Rightarrow> bool \<times> world" where
  "store_in_dynamodb e data w =
     (case store_in_dynamodb_try e data w of
        (Inr ok, w') \<Rightarrow> (ok, w')
      | (Inl ex, w') \<Rightarrow> (False, w'))"

subsection \<open>Archival write\<close>

definition s3_key :: "datetime \<Rightarrow> string \<Rightarrow> nat \<Rightarrow> string" where
  "s3_key timestamp sid u =
     ''telemetry/'' @
     ''year='' @ str_nat (year timestamp) @ ''/'' @
     ''month='' @ pad2 (month timestamp) @ ''/'' @
     ''day='' @ pad2 (day timestamp) @ ''/'' @
     sid @ ''_'' @ strftime_Ymd_HMS timestamp @ ''_'' @ take 8 (uuid_hex u) @ ''.json''"

text \<open>
  The \<^verbatim>\<open>try\<close> block of \<^verbatim>\<open>archive_to_s3\<close>. The f-string would format any value of
  \<^verbatim>\<open>station_id\<close>, but \<^verbatim>\<open>put_object\<close> takes string metadata only: with any other value
  the call is made and raises before anything is stored.
\<close>

definition archive_to_s3_try :: "env \<Rightarrow> dict \<Rightarrow> world \<Rightarrow> (exn + bool) \<times> world" where
  "archive_to_s3_try e data w =
     (case parse_timestamp data of
        Inl ex \<Rightarrow> (Inl ex, w)
      | Inr timestamp \<Rightarrow>
          (case getitem data ''station_id'' of
             Inl ex \<Rightarrow> (Inl ex, w)
           | Inr (PStr sid) \<Rightarrow>
               (let key = s3_key timestamp sid (uuid4 e);
                    json_data = json_dumps (PDict data)
                in case put_object e key json_data ''application/json''
                          [(''station_id'', sid), (''ingestion_time'', ingestion_time e)] w of
                     (Inl ex, w') \<Rightarrow> (Inl ex, w')
                   | (Inr u, w') \<Rightarrow> (Inr True, w'))
           | Inr other \<Rightarrow>
               (Inl ParamValidationError, w\<lparr>put_object_calls := Suc (put_object_calls w)\<rparr>)))"

definition archive_to_s3 :: "env \<Rightarrow> dict \<Rightarrow> world \<Rightarrow> bool \<times> world" where
  "archive_to_s3 e data w =
     (case archive_to_s3_try e data w of
        (Inr ok, w') \<Rightarrow> (ok, w')
      | (Inl ex, w') \<Rightarrow> (False, w'))"

subsection \<open>The handler\<close>

text \<open>
  A response is the dictionary the handler returns; the telemetry handler sets no headers.

  The handler's second argument, the Lambda context, is read by its first log line only
  (\<^verbatim>\<open>context.request_id\<close>, \<^verbatim>\<open>context.function_name\<close> and
  \<^verbatim>\<open>context.memory_limit_in_mb\<close>), before the \<^verbatim>\<open>try\<close> block is entered. Logging
  is not part of the model, and the context is taken to be an object that has these three
  attributes, as the \<^verbatim>\<open>MockContext\<close> of the source has.
\<close>

record response =
  statusCode :: int
  headers :: "(string \<times> string) list"
  body :: json_text

definition exn_str :: "exn \<Rightarrow> string" where
  "exn_str ex =
     (case ex of
        KeyError k \<Rightarrow> k
      | AttributeError \<Rightarrow> ''AttributeError''
      | ValueError \<Rightarrow> ''ValueError''
      | ClientError \<Rightarrow> ''ClientError''
      | ParamValidationError \<Rightarrow> ''ParamValidationError''
      | InvalidOperation \<Rightarrow> ''InvalidOperation'')"

definition lambda_handler_try :: "env \<Rightarrow> dict \<Rightarrow> world \<Rightarrow> (exn + response) \<times> world" where
  "lambda_handler_try e event w =
     (case validate_telemetry event of
        Inl ex \<Rightarrow> (Inl ex, w)
      | Inr (is_valid, error_message) \<Rightarrow>
          if \<not> is_valid then
            (Inr \<lparr>statusCode = 400, headers = [],
                  body = json_dumps (PDict
                    [(''error'', PStr ''Validation failed''),
                     (''message'', case error_message of None \<Rightarrow> PNone | Some m \<Rightarrow> PStr m)])\<rparr>,
             w)
          else
            (case getitem event ''station_id'' of
               Inl ex \<Rightarrow> (Inl ex, w)
             | Inr sid \<Rightarrow>
                 (let (dynamodb_success, w1) = store_in_dynamodb e event w;
                      (s3_success, w2) = archive_to_s3 e event w1;
                      (status_code, message) =
                        (if dynamodb_success \<and> s3_success
                         then (200, ''Telemetry processed successfully'')
                         else if dynamodb_success \<or> s3_success
                         then (207, ''Telemetry partially processed'')
                         else (500, ''Failed to process telemetry''))
                  in (Inr \<lparr>statusCode = status_code, headers = [],
                           body = json_dumps (PDict
                             [(''message'', PStr message),
                              (''station_id'', sid),
                              (''dynamodb_success'', PBool dynamodb_success),
                              (''s3_success'', PBool s3_success),
                              (''timestamp'', PStr (response_time e))])\<rparr>,
                      w2))))"

definition lambda_handler :: "env \<Rightarrow> dict \<Rightarrow> world \<Rightarrow> response \<times> world" where
  "lambda_handler e event w =
     (case lambda_handler_try e event w of
        (Inr r, w') \<Rightarrow> (r, w')
      | (Inl ex, w') \<Rightarrow>
          (\<lparr>statusCode = 500, headers = [],
            body = json_dumps (PDict
              [(''error'', PStr ''Internal server error''), (''message'', PStr (exn_str ex))])\<rparr>,
           w'))"

section \<open>Query handler (lambda\_api\_handler.py)\<close>

text \<open>
  \<^verbatim>\<open>decimal_to_float\<close>: an integral \<^verbatim>\<open>Decimal\<close> becomes an \<^verbatim>\<open>int\<close>, any other a
  float. The test \<^verbatim>\<open>obj % 1 == 0\<close> is computed in the default decimal context, which
  has 28 digits: on a \<^verbatim>\<open>Decimal\<close> whose integer part has more than 28 digits the
  remainder raises \<^verbatim>\<open>decimal.InvalidOperation\<close>. The comprehensions over a dictionary
  and over a list convert the elements in order, and the first exception ends them.
\<close>

fun decimal_to_float :: "pyval \<Rightarrow> exn + pyval"
  and decimal_to_float_list :: "pyval list \<Rightarrow> exn + pyval list"
  and decimal_to_float_items :: "(string \<times> pyval) list \<Rightarrow> exn + (string \<times> pyval) list"
  where
  "decimal_to_float (PDecimal x) =
     (if 10 ^ 28 \<le> \<bar>x\<bar> then Inl InvalidOperation
      else if x = of_int \<lfloor>x\<rfloor> then Inr (PInt \<lfloor>x\<rfloor>) else Inr (PFloat x))"
| "decimal_to_float (PDict d) =
     (case decimal_to_float_items d of Inl ex \<Rightarrow> Inl ex | Inr d' \<Rightarrow> Inr (PDict d'))"
| "decimal_to_float (PList xs) =
     (case decimal_to_float_list xs of Inl ex \<Rightarrow> Inl ex | Inr ys \<Rightarrow> Inr (PList ys))"
| "decimal_to_float PNone = Inr PNone"
| "decimal_to_float (PBool b) = Inr (PBool b)"
| "decimal_to_float (PInt n) = Inr (PInt n)"
| "decimal_to_float (PFloat x) = Inr (PFloat x)"
| "decimal_to_float (PStr s) = Inr (PStr s)"
| "decimal_to_float_list [] = Inr []"
| "decimal_to_float_list (item # xs) =
     (case decimal_to_float item of
        Inl ex \<Rightarrow> Inl ex
      | Inr y \<Rightarrow>
          (case decimal_to_float_list xs of Inl ex \<Rightarrow> Inl ex | Inr ys \<Rightarrow> Inr (y # ys)))"
| "decimal_to_float_items [] = Inr []"
| "decimal_to_float_items (kv # d) =
     (case decimal_to_float (snd kv) of
        Inl ex \<Rightarrow> Inl ex
      | Inr y \<Rightarrow>
          (case decimal_to_float_items d of
             Inl ex \<Rightarrow> Inl ex
           | Inr d' \<Rightarrow> Inr ((fst kv, y) # d')))"

definition create_response ::
  "int \<Rightarrow> pyval \<Rightarrow> (string \<times> string) list option \<Rightarrow> response" where
  "create_response status_code body_value custom =
     (let default_headers =
            [(''Content-Type'', ''application/json''),
             (''Access-Control-Allow-Origin'', ''*''),
             (''Access-Control-Allow-Methods'', ''GET, OPTIONS''),
             (''Access-Control-Allow-Headers'', ''Content-Type'')];
          default_headers =
            (case custom of
               None \<Rightarrow> default_headers
             | Some hs \<Rightarrow> fold (\<lambda>kv h. dict_set h (fst kv) (snd kv)) hs default_headers)
      in \<lparr>statusCode = status_code, headers = default_headers, body = json_dumps body_value\<rparr>)"

text \<open>
  \<^verbatim>\<open>table.get_item(Key={'station_id': station_id})\<close>: the answer holds an item or none;
  the call raises when the store cannot be read or the key is not a non-empty string.
\<close>

definition get_item :: "env \<Rightarrow> pyval \<Rightarrow> world \<Rightarrow> exn + dict option" where
  "get_item e key w =
     (case key of
        PStr k \<Rightarrow> if dynamodb_up e \<and> k \<noteq> [] then Inr (table w k) else Inl ClientError
      | _ \<Rightarrow> Inl ClientError)"

text \<open>
  \<^verbatim>\<open>get_station_by_id\<close>: \<open>Inr None\<close> is the return value \<^verbatim>\<open>None\<close> (not found); its
  handler logs and re-raises, so an exception of the read or of the conversion is \<open>Inl\<close>.
\<close>

definition get_station_by_id :: "env \<Rightarrow> pyval \<Rightarrow> world \<Rightarrow> exn + pyval option" where
  "get_station_by_id e sid w =
     (case get_item e sid w of
        Inl ex \<Rightarrow> Inl ex
      | Inr None \<Rightarrow> Inr None
      | Inr (Some item) \<Rightarrow>
          (case decimal_to_float (PDict item) of
             Inl ex \<Rightarrow> Inl ex
           | Inr station \<Rightarrow> Inr (Some station)))"

text \<open>Python truthiness of a value, for \<^verbatim>\<open>if not station_id\<close>.\<close>

fun truthy :: "pyval \<Rightarrow> bool" where
  "truthy PNone = False"
| "truthy (PBool b) = b"
| "truthy (PInt n) = (n \<noteq> 0)"
| "truthy (PFloat x) = (x \<noteq> 0)"
| "truthy (PDecimal x) = (x \<noteq> 0)"
| "truthy (PStr s) = (s \<noteq> [])"
| "truthy (PList xs) = (xs \<noteq> [])"
| "truthy (PDict d) = (d \<noteq> [])"

text \<open>
  The \<^verbatim>\<open>try\<close> block of \<^verbatim>\<open>handle_get_station_by_id\<close>. \<^verbatim>\<open>.get\<close> exists on a dictionary
  only. The not-found message formats the id, which is a string whenever the read
  returned: \<^verbatim>\<open>get_item\<close> raises on any other key.
\<close>

definition handle_get_station_by_id_try :: "env \<Rightarrow> dict \<Rightarrow> world \<Rightarrow> exn + response" where
  "handle_get_station_by_id_try e event w =
     (case (case map_of event ''pathParameters'' of None \<Rightarrow> PDict [] | Some v \<Rightarrow> v) of
        PDict path_params \<Rightarrow>
          (let sid = dict_get path_params ''station_id'' in
           if \<not> truthy sid then
             Inr (create_response 400
                    (PDict [(''error'', PStr ''Bad request''),
                            (''message'', PStr ''station_id is required'')]) None)
           else
             (case get_station_by_id e sid w of
                Inl ex \<Rightarrow> Inl ex
              | Inr None \<Rightarrow>
                  Inr (create_response 404
                         (PDict [(''error'', PStr ''Not found''),
                                 (''message'',
                                  PStr (''Station '' @ (case sid of PStr s \<Rightarrow> s | _ \<Rightarrow> [])
                                        @ '' not found''))]) None)
              | Inr (Some station) \<Rightarrow>
                  Inr (create_response 200 (PDict [(''station'', station)]) None)))
      | _ \<Rightarrow> Inl AttributeError)"

definition handle_get_station_by_id :: "env \<Rightarrow> dict \<Rightarrow> world \<Rightarrow> response" where
  "handle_get_station_by_id e event w =
     (case handle_get_station_by_id_try e event w of
        Inr r \<Rightarrow> r
      | Inl ex \<Rightarrow>
          create_response 500
            (PDict [(''error'', PStr ''Internal server error''),
                    (''message'', PStr ''Failed to retrieve station'')]) None)"

section \<open>Ranges and sample values for the simulator\<close>

text \<open>The ranges the simulator keeps its state in.\<close>

definition station_ok :: "station \<Rightarrow> bool" where
  "station_ok s \<longleftrightarrow>
     0 \<le> battery_available s \<and> 0 \<le> battery_charging s \<and>
     15 \<le> temperature s \<and> temperature s \<le> 35 \<and>
     20 \<le> humidity s \<and> humidity s \<le> 80"

text \<open>The total number of batteries in the two pools of a station.\<close>

definition battery_total :: "station \<Rightarrow> int" where
  "battery_total s = battery_available s + battery_charging s"

text \<open>A generator and a clock to run the simulator on.\<close>

definition sample_sim_world :: sim_world where
  "sample_sim_world =
     \<lparr>entropy = (\<lambda>n. 7 * n + 3), cursor = 0,
      utcnow_isoformat = (\<lambda>n. ''2024-01-15T14:23:45.000000''), clock_reads = 0\<rparr>"

section \<open>Formats and sample values for the handlers\<close>

text \<open>Strings of exactly \<open>n\<close> decimal digits, and of \<open>n\<close> lower-case hexadecimal digits.\<close>

definition is_digit :: "char \<Rightarrow> bool" where
  "is_digit c \<longleftrightarrow> c \<in> set ''0123456789''"

definition is_hex_digit :: "char \<Rightarrow> bool" where
  "is_hex_digit c \<longleftrightarrow> c \<in> set ''0123456789abcdef''"

definition digits :: "nat \<Rightarrow> string \<Rightarrow> bool" where
  "digits n s \<longleftrightarrow> length s = n \<and> list_all is_digit s"

definition hex_string :: "nat \<Rightarrow> string \<Rightarrow> bool" where
  "hex_string n s \<longleftrightarrow> length s = n \<and> list_all is_hex_digit s"

text \<open>
  The item \<^verbatim>\<open>store_in_dynamodb\<close> puts for a record, and the object \<^verbatim>\<open>archive_to_s3\<close>
  puts for it, in an invocation with environment \<open>e\<close>.
\<close>

definition stored_item :: "env \<Rightarrow> dict \<Rightarrow> dict" where
  "stored_item e data =
     dict_set (convert_floats_to_decimal data) ''lambda_processed_at'' (PStr (processed_at e))"

definition archived_object :: "env \<Rightarrow> dict \<Rightarrow> string \<Rightarrow> s3_object" where
  "archived_object e data sid =
     \<lparr>Body = json_dumps (PDict data), ContentType = ''application/json'',
      Metadata = [(''station_id'', sid), (''ingestion_time'', ingestion_time e)]\<rparr>"

text \<open>The event of the module's docstring, an environment and the empty stores.\<close>

definition sample_event :: dict where
  "sample_event =
     [(''station_id'', PStr ''station-01''), (''battery_available'', PInt 12),
      (''battery_charging'', PInt 4), (''temperature'', PFloat 32.5),
      (''humidity'', PFloat 45.2), (''status'', PStr ''operational''),
      (''timestamp'', PStr ''2024-01-15T14:23:45Z'')]"

definition sample_env :: env where
  "sample_env =
     \<lparr>dynamodb_up = True, s3_up = True,
      processed_at = ''2024-01-15T14:23:46.100000'',
      ingestion_time = ''2024-01-15T14:23:46.200000'',
      response_time = ''2024-01-15T14:23:46.300000'',
      uuid4 = 0x1234567800004000800000000000abcd\<rparr>"

definition empty_world :: world where
  "empty_world = \<lparr>table = Map.empty, bucket = Map.empty, put_item_calls = 0, put_object_calls = 0\<rparr>"

definition sample_datetime :: datetime where
  "sample_datetime =
     \<lparr>year = 2024, month = 1, day = 15, hour = 14, minute = 23, second = 45,
      microsecond = 0, utcoffset = Some 0\<rparr>"

text \<open>
  Records the validator rejects: a negative battery count, and a timestamp that is a
  number instead of a string.
\<close>

definition negative_count_event :: dict where
  "negative_count_event =
     [(''station_id'', PStr ''station-01''), (''battery_available'', PInt (- 1)),
      (''timestamp'', PStr ''2024-01-15T14:23:45Z'')]"

definition numeric_timestamp_event :: dict where
  "numeric_timestamp_event =
     [(''station_id'', PStr ''station-01''), (''battery_available'', PInt 12),
      (''timestamp'', PInt 1705328625)]"

text \<open>A number that is not below zero: an \<^verbatim>\<open>int\<close> or a \<^verbatim>\<open>float\<close>, not a boolean.\<close>

definition nonneg_number :: "pyval \<Rightarrow> bool" where
  "nonneg_number v \<longleftrightarrow> (case v of PInt n \<Rightarrow> 0 \<le> n | PFloat x \<Rightarrow> 0 \<le> x | _ \<Rightarrow> False)"

fun is_bool :: "pyval \<Rightarrow> bool" where
  "is_bool (PBool b) = True"
| "is_bool v = False"

text \<open>\<open>decimal n k s\<close>: the string \<open>s\<close> is the number \<open>k\<close> written with exactly \<open>n\<close> decimal digits.\<close>

definition decimal :: "nat \<Rightarrow> nat \<Rightarrow> string \<Rightarrow> bool" where
  "decimal n k s \<longleftrightarrow> digits n s \<and> number s = Some k"

text \<open>A query for a station, as the API gateway passes it to the query handler.\<close>

definition query_event :: "string \<Rightarrow> dict" where
  "query_event sid =
     [(''httpMethod'', PStr ''GET''), (''path'', PStr (''/stations/'' @ sid)),
      (''pathParameters'', PDict [(''station_id'', PStr sid)])]"

text \<open>A record stamped in the year 999, and the timestamp it parses to.\<close>

definition early_event :: dict where
  "early_event =
     [(''station_id'', PStr ''station-01''), (''battery_available'', PInt 12),
      (''timestamp'', PStr ''0999-01-15T14:23:45Z'')]"

definition early_datetime :: datetime where
  "early_datetime =
     \<lparr>year = 999, month = 1, day = 15, hour = 14, minute = 23, second = 45,
      microsecond = 0, utcoffset = Some 0\<rparr>"

text \<open>
  A second invocation: another reading of the clock and another UUID, which has the same
  first eight hexadecimal digits as the UUID of \<open>sample_env\<close>.
\<close>

definition second_env :: env where
  "second_env =
     \<lparr>dynamodb_up = True, s3_up = True,
      processed_at = ''2024-01-15T14:23:47.100000'',
      ingestion_time = ''2024-01-15T14:23:47.200000'',
      response_time = ''2024-01-15T14:23:47.300000'',
      uuid4 = 0x12345678ffff4fff8fffffffffffffff\<rparr>"

section \<open>Verified properties\<close>

subsection \<open>The library draws stay in their ranges\<close>

lemma random_range: "0 \<le> fst (random w) \<and> fst (random w) < 1"
  by (simp add: random_def)

lemma uniform_range:
  assumes "a \<le> b"
  shows "a \<le> fst (uniform a b w) \<and> fst (uniform a b w) \<le> b"
proof -
  obtain r w' where rw: "random w = (r, w')" by (cases "random w")
  from random_range [of w] rw have r: "0 \<le> r" "r < 1" by simp_all
  have u: "fst (uniform a b w) = a + (b - a) * r" by (simp add: uniform_def rw)
  from assms r have lo: "0 \<le> (b - a) * r" by simp
  from assms r have "(b - a) * r \<le> (b - a) * 1" by (intro mult_left_mono) simp_all
  with lo show ?thesis unfolding u by simp
qed

lemma randint_range:
  assumes "a \<le> b"
  shows "a \<le> fst (randint a b w) \<and> fst (randint a b w) \<le> b"
proof -
  from assms have pos: "0 < nat (b - a + 1)" by simp
  then have "entropy w (cursor w) mod nat (b - a + 1) < nat (b - a + 1)"
    by (rule mod_less_divisor)
  then have "int (entropy w (cursor w) mod nat (b - a + 1)) < int (nat (b - a + 1))"
    by (simp only: of_nat_less_iff)
  then have "int (entropy w (cursor w) mod nat (b - a + 1)) < b - a + 1"
    using assms by simp
  then show ?thesis by (simp add: randint_def)
qed

subsection \<open>Every rule keeps the ranges\<close>

lemma init_station_ok: "station_ok (fst (init_station sid w))"
proof -
  obtain a w1 where 1: "randint 8 15 w = (a, w1)" by (cases "randint 8 15 w")
  obtain c w2 where 2: "randint 2 6 w1 = (c, w2)" by (cases "randint 2 6 w1")
  obtain t w3 where 3: "uniform 20 30 w2 = (t, w3)" by (cases "uniform 20 30 w2")
  obtain h w4 where 4: "uniform 30 60 w3 = (h, w4)" by (cases "uniform 30 60 w3")
  from randint_range [of 8 15 w] 1 have a: "8 \<le> a" by simp
  from randint_range [of 2 6 w1] 2 have c: "2 \<le> c" by simp
  from uniform_range [of 20 30 w2] 3 have t: "20 \<le> t" "t \<le> 30" by simp_all
  from uniform_range [of 30 60 w3] 4 have h: "30 \<le> h" "h \<le> 60" by simp_all
  from a c t h show ?thesis
    by (simp add: init_station_def 1 2 3 4 station_ok_def split: prod.splits)
qed

lemma charging_ok: "station_ok s \<Longrightarrow> station_ok (fst (simulate_battery_charging s w))"
  by (simp add: simulate_battery_charging_def station_ok_def split: prod.splits)

lemma swap_ok: "station_ok s \<Longrightarrow> station_ok (fst (simulate_battery_swap s w))"
  by (simp add: simulate_battery_swap_def station_ok_def split: prod.splits)

lemma temperature_ok: "station_ok s \<Longrightarrow> station_ok (fst (simulate_temperature_change s w))"
  by (simp add: simulate_temperature_change_def station_ok_def split: prod.splits)

lemma humidity_ok: "station_ok s \<Longrightarrow> station_ok (fst (simulate_humidity_change s w))"
  by (simp add: simulate_humidity_change_def station_ok_def split: prod.splits)

lemma status_ok: "station_ok s \<Longrightarrow> station_ok (fst (simulate_status_change s w))"
  by (simp add: simulate_status_change_def station_ok_def split: prod.splits)

lemma update_ok: "station_ok s \<Longrightarrow> station_ok (fst (update s w))"
  unfolding update_def
  by (auto simp: split_def Let_def
      intro!: status_ok humidity_ok temperature_ok swap_ok charging_ok)

lemma ticks_ok: "station_ok s \<Longrightarrow> station_ok (fst (ticks n s w))"
  by (induction n arbitrary: s w) (auto simp: split_def Let_def dest: update_ok)

text \<open>
  Claim C4. For every station id, every state of the generator and the clock, and every
  number \<open>n\<close> of calls of \<^verbatim>\<open>update\<close> after \<^verbatim>\<open>__init__\<close>, the station has
  \<open>battery_available \<ge> 0\<close>, \<open>battery_charging \<ge> 0\<close>, a temperature in \<open>[15, 35]\<close> and a
  humidity in \<open>[20, 80]\<close>.
\<close>

theorem simulator_invariant:
  "station_ok (fst (ticks n (fst (init_station sid w)) (snd (init_station sid w))))"
  by (rule ticks_ok) (rule init_station_ok)

theorem simulator_invariant_witness:
  "station_ok (fst (ticks 3 (fst (init_station ''station-01'' sample_sim_world))
                            (snd (init_station ''station-01'' sample_sim_world))))"
  using simulator_invariant [of 3 "''station-01''" sample_sim_world] by simp

subsection \<open>No rule creates or destroys a battery\<close>

lemma charging_moves_one:
  "fst (simulate_battery_charging s w) = s \<or>
   (battery_available (fst (simulate_battery_charging s w)) = battery_available s + 1 \<and>
    battery_charging (fst (simulate_battery_charging s w)) = battery_charging s - 1)"
  by (simp add: simulate_battery_charging_def split: prod.splits)

lemma swap_moves_one:
  "fst (simulate_battery_swap s w) = s \<or>
   (battery_available (fst (simulate_battery_swap s w)) = battery_available s - 1 \<and>
    battery_charging (fst (simulate_battery_swap s w)) = battery_charging s + 1)"
  by (simp add: simulate_battery_swap_def split: prod.splits)

lemma charging_total: "battery_total (fst (simulate_battery_charging s w)) = battery_total s"
  by (simp add: simulate_battery_charging_def battery_total_def split: prod.splits)

lemma swap_total: "battery_total (fst (simulate_battery_swap s w)) = battery_total s"
  by (simp add: simulate_battery_swap_def battery_total_def split: prod.splits)

lemma temperature_pools:
  "battery_available (fst (simulate_temperature_change s w)) = battery_available s \<and>
   battery_charging (fst (simulate_temperature_change s w)) = battery_charging s"
  by (simp add: simulate_temperature_change_def split: prod.splits)

lemma humidity_pools:
  "battery_available (fst (simulate_humidity_change s w)) = battery_available s \<and>
   battery_charging (fst (simulate_humidity_change s w)) = battery_charging s"
  by (simp add: simulate_humidity_change_def split: prod.splits)

lemma status_pools:
  "battery_available (fst (simulate_status_change s w)) = battery_available s \<and>
   battery_charging (fst (simulate_status_change s w)) = battery_charging s"
  by (simp add: simulate_status_change_def split: prod.splits)

lemma update_total: "battery_total (fst (update s w)) = battery_total s"
proof -
  have "battery_total (fst (update s w)) =
        battery_total (fst (simulate_battery_swap (fst (simulate_battery_charging s w))
                                                  (snd (simulate_battery_charging s w))))"
    unfolding update_def
    by (simp add: split_def Let_def battery_total_def status_pools humidity_pools
        temperature_pools)
  then show ?thesis by (simp add: swap_total charging_total)
qed

lemma ticks_total: "battery_total (fst (ticks n s w)) = battery_total s"
  by (induction n arbitrary: s w) (simp_all add: split_def Let_def update_total)

text \<open>
  Claim C9. One call of \<^verbatim>\<open>update\<close> leaves \<open>battery_available + battery_charging\<close>
  unchanged, and so does any number of ticks. The charging rule either leaves the station
  as it is or moves exactly one battery from the charging pool to the available pool; the
  swap rule either leaves it as it is or moves exactly one battery the other way; the
  temperature, humidity and status rules change neither pool.
\<close>

theorem battery_total_preserved:
  "battery_total (fst (update s w)) = battery_total s \<and>
   battery_total (fst (ticks n s w)) = battery_total s \<and>
   (fst (simulate_battery_charging s w) = s \<or>
    (battery_available (fst (simulate_battery_charging s w)) = battery_available s + 1 \<and>
     battery_charging (fst (simulate_battery_charging s w)) = battery_charging s - 1)) \<and>
   (fst (simulate_battery_swap s w) = s \<or>
    (battery_available (fst (simulate_battery_swap s w)) = battery_available s - 1 \<and>
     battery_charging (fst (simulate_battery_swap s w)) = battery_charging s + 1)) \<and>
   (battery_available (fst (simulate_temperature_change s w)) = battery_available s \<and>
    battery_charging (fst (simulate_temperature_change s w)) = battery_charging s) \<and>
   (battery_available (fst (simulate_humidity_change s w)) = battery_available s \<and>
    battery_charging (fst (simulate_humidity_change s w)) = battery_charging s) \<and>
   (battery_available (fst (simulate_status_change s w)) = battery_available s \<and>
    battery_charging (fst (simulate_status_change s w)) = battery_charging s)"
  by (intro conjI update_total ticks_total charging_moves_one swap_moves_one
      temperature_pools [THEN conjunct1] temperature_pools [THEN conjunct2]
      humidity_pools [THEN conjunct1] humidity_pools [THEN conjunct2]
      status_pools [THEN conjunct1] status_pools [THEN conjunct2])

theorem battery_total_preserved_witness:
  "battery_total (fst (ticks 3 (fst (init_station ''station-01'' sample_sim_world))
                               (snd (init_station ''station-01'' sample_sim_world)))) =
   battery_total (fst (init_station ''station-01'' sample_sim_world))"
  using battery_total_preserved [of "fst (init_station ''station-01'' sample_sim_world)"
      "snd (init_station ''station-01'' sample_sim_world)" 3]
  by simp

subsection \<open>Dictionaries\<close>

lemma map_of_dict_set: "map_of (dict_set d k v) = (map_of d)(k \<mapsto> v)"
  by (induction d) (auto simp: fun_eq_iff)

lemma map_of_convert:
  "map_of (convert_floats_to_decimal d) k = map_option convert_value (map_of d k)"
  unfolding convert_floats_to_decimal_def by (induction d) auto

subsection \<open>The validator\<close>

lemma first_missing_required:
  "first_missing data required_fields = None \<longleftrightarrow>
     map_of data ''station_id'' \<noteq> None \<and> map_of data ''battery_available'' \<noteq> None \<and>
     map_of data ''timestamp'' \<noteq> None"
  by (simp add: required_fields_def)

lemma strip_Nil: "strip [] = []"
  by (simp add: strip_def)

lemma fromisoformat_exn: "fromisoformat s = Inl ex \<Longrightarrow> ex = ValueError"
  by (auto simp: fromisoformat_def new_datetime_def split: option.splits if_splits prod.splits)

lemma parse_timestamp_exn:
  "parse_timestamp data = Inl ex \<Longrightarrow> map_of data ''timestamp'' \<noteq> None \<Longrightarrow>
     ex = ValueError \<or> ex = AttributeError"
  by (auto simp: parse_timestamp_def getitem_def replace_Z_def dest: fromisoformat_exn
      split: option.splits sum.splits pyval.splits)

lemma parse_timestamp_not_str:
  "map_of data ''timestamp'' = Some v \<Longrightarrow> (\<forall>s. v \<noteq> PStr s) \<Longrightarrow>
     parse_timestamp data = Inl AttributeError"
  by (auto simp: parse_timestamp_def getitem_def replace_Z_def split: pyval.splits)

lemma validate_accepted:
  assumes "validate_telemetry data = Inr (True, r)"
  shows "\<exists>sid v t. map_of data ''station_id'' = Some (PStr sid) \<and> strip sid \<noteq> [] \<and>
           map_of data ''battery_available'' = Some v \<and> isinstance_int_float v \<and>
           \<not> less_zero v \<and> parse_timestamp data = Inr t \<and> r = None"
  using assms
  by (auto simp: validate_telemetry_def first_missing_required dict_get_def
      split: option.splits if_splits pyval.splits sum.splits)

lemma validate_never_raises:
  "\<exists>verdict reason. validate_telemetry data = Inr (verdict, reason)"
proof (cases "first_missing data required_fields")
  case (Some f)
  then show ?thesis by (auto simp: validate_telemetry_def intro!: exI [of _ False])
next
  case None
  then have ts: "map_of data ''timestamp'' \<noteq> None" by (simp add: first_missing_required)
  show ?thesis
  proof (cases "parse_timestamp data")
    case (Inl ex)
    from Inl ts have "ex = ValueError \<or> ex = AttributeError" by (rule parse_timestamp_exn)
    with None Inl show ?thesis by (auto simp: validate_telemetry_def)
  next
    case (Inr t)
    with None show ?thesis by (auto simp: validate_telemetry_def)
  qed
qed

lemma validate_rejected_reason:
  assumes "validate_telemetry data = Inr (False, r)"
  shows "\<exists>reason. r = Some reason"
  using assms
  by (auto simp: validate_telemetry_def split: option.splits if_splits sum.splits)

lemma validate_passes_earlier_checks:
  assumes "first_missing data required_fields = None"
    and "map_of data ''station_id'' = Some (PStr sid)" "strip sid \<noteq> []"
    and "map_of data ''battery_available'' = Some v"
  shows "validate_telemetry data =
           (if \<not> isinstance_int_float v \<or> less_zero v
            then Inr (False, Some ''battery_available must be a non-negative number'')
            else (case parse_timestamp data of
                    Inr t \<Rightarrow> Inr (True, None)
                  | Inl ex \<Rightarrow>
                      if ex = ValueError \<or> ex = AttributeError
                      then Inr (False, Some ''timestamp must be valid ISO-8601 format'')
                      else Inl ex))"
  using assms by (simp add: validate_telemetry_def dict_get_def)

subsection \<open>Evaluating the validator on concrete records\<close>

lemmas parse_defs =
  fromisoformat_def parse_isoformat_date_def parse_isoformat_time_def parse_hh_mm_ss_ff_def
  number_def digit_val_def is_sign_def new_datetime_def days_in_month_def is_leap_def
  parse_timestamp_def getitem_def replace_Z_def str_replace_def

lemmas validate_defs =
  validate_telemetry_def required_fields_def dict_get_def strip_def is_space_def

lemma parse_sample: "parse_timestamp sample_event = Inr sample_datetime"
  by (simp add: sample_event_def sample_datetime_def parse_defs)

lemma validate_sample: "validate_telemetry sample_event = Inr (True, None)"
  by (simp add: sample_event_def validate_defs parse_defs)

lemma hex_digits_numeral:
  "hex_digits (numeral k) n = hex_digits (pred_numeral k) (n div 16) @ [digit_char (n mod 16)]"
proof -
  have "hex_digits (Suc (pred_numeral k)) n =
        hex_digits (pred_numeral k) (n div 16) @ [digit_char (n mod 16)]"
    by (rule hex_digits.simps(2))
  then show ?thesis by (simp only: numeral_eq_Suc [symmetric])
qed

lemma sample_suffix: "take 8 (uuid_hex (uuid4 sample_env)) = ''12345678''"
  by (simp add: sample_env_def uuid_hex_def hex_digits_numeral digit_char_def)

lemma sample_key:
  "s3_key sample_datetime ''station-01'' (uuid4 sample_env) =
     ''telemetry/year=2024/month=01/day=15/station-01_20240115_142345_12345678.json''"
  by (simp add: s3_key_def strftime_Ymd_HMS_def pad2_def str_nat.simps digit_char_def
      sample_suffix sample_datetime_def)

subsection \<open>The two writes and the handler on a validated record\<close>

lemma store_in_dynamodb_try_valid:
  assumes "map_of data ''station_id'' = Some (PStr sid)" "sid \<noteq> []"
  shows "store_in_dynamodb_try e data w =
           (if dynamodb_up e
            then (Inr True, w\<lparr>put_item_calls := Suc (put_item_calls w),
                    table := (table w)(sid \<mapsto> stored_item e data)\<rparr>)
            else (Inl ClientError, w\<lparr>put_item_calls := Suc (put_item_calls w)\<rparr>))"
  using assms
  by (simp add: store_in_dynamodb_try_def put_item_def Let_def map_of_dict_set map_of_convert
      getitem_def stored_item_def)

lemma store_in_dynamodb_valid:
  assumes "map_of data ''station_id'' = Some (PStr sid)" "sid \<noteq> []"
  shows "store_in_dynamodb e data w =
           (dynamodb_up e,
            if dynamodb_up e
            then w\<lparr>put_item_calls := Suc (put_item_calls w),
                    table := (table w)(sid \<mapsto> stored_item e data)\<rparr>
            else w\<lparr>put_item_calls := Suc (put_item_calls w)\<rparr>)"
  by (simp add: store_in_dynamodb_def store_in_dynamodb_try_valid [OF assms])

lemma archive_to_s3_try_valid:
  assumes "parse_timestamp data = Inr t" "map_of data ''station_id'' = Some (PStr sid)"
  shows "archive_to_s3_try e data w =
           (if s3_up e
            then (Inr True, w\<lparr>put_object_calls := Suc (put_object_calls w),
                    bucket := (bucket w)(s3_key t sid (uuid4 e) \<mapsto> archived_object e data sid)\<rparr>)
            else (Inl ClientError, w\<lparr>put_object_calls := Suc (put_object_calls w)\<rparr>))"
  using assms
  by (simp add: archive_to_s3_try_def put_object_def Let_def getitem_def archived_object_def)

lemma archive_to_s3_valid:
  assumes "parse_timestamp data = Inr t" "map_of data ''station_id'' = Some (PStr sid)"
  shows "archive_to_s3 e data w =
           (s3_up e,
            if s3_up e
            then w\<lparr>put_object_calls := Suc (put_object_calls w),
                    bucket := (bucket w)(s3_key t sid (uuid4 e) \<mapsto> archived_object e data sid)\<rparr>
            else w\<lparr>put_object_calls := Suc (put_object_calls w)\<rparr>)"
  by (simp add: archive_to_s3_def archive_to_s3_try_valid [OF assms])

lemma lambda_handler_try_valid:
  assumes "validate_telemetry event = Inr (True, r)"
    and "parse_timestamp event = Inr t" "map_of event ''station_id'' = Some (PStr sid)"
    and "sid \<noteq> []"
  shows "lambda_handler_try e event w =
     (Inr \<lparr>statusCode = (if dynamodb_up e \<and> s3_up e then 200
                          else if dynamodb_up e \<or> s3_up e then 207 else 500),
            headers = [],
            body = json_dumps (PDict
              [(''message'', PStr (if dynamodb_up e \<and> s3_up e
                                   then ''Telemetry processed successfully''
                                   else if dynamodb_up e \<or> s3_up e
                                   then ''Telemetry partially processed''
                                   else ''Failed to process telemetry'')),
               (''station_id'', PStr sid),
               (''dynamodb_success'', PBool (dynamodb_up e)),
               (''s3_success'', PBool (s3_up e)),
               (''timestamp'', PStr (response_time e))])\<rparr>,
      snd (archive_to_s3 e event (snd (store_in_dynamodb e event w))))"
  using assms
  by (simp add: lambda_handler_try_def getitem_def store_in_dynamodb_valid archive_to_s3_valid)

text \<open>What a validated record is, for the handler: the three facts the writes depend on.\<close>

lemma validated_record:
  assumes "validate_telemetry event = Inr (True, r)"
  obtains sid t where "map_of event ''station_id'' = Some (PStr sid)" "sid \<noteq> []"
    "parse_timestamp event = Inr t"
proof -
  from validate_accepted [OF assms] obtain sid v t where
    sid: "map_of event ''station_id'' = Some (PStr sid)" and ne: "strip sid \<noteq> []" and
    t: "parse_timestamp event = Inr t" by blast
  from ne have "sid \<noteq> []" by (auto simp: strip_Nil)
  with sid show thesis using t by (rule that)
qed

lemma lambda_handler_valid:
  assumes "validate_telemetry event = Inr (True, r)"
    and "parse_timestamp event = Inr t" "map_of event ''station_id'' = Some (PStr sid)"
    and "sid \<noteq> []"
  shows "lambda_handler e event w =
     (\<lparr>statusCode = (if dynamodb_up e \<and> s3_up e then 200
                       else if dynamodb_up e \<or> s3_up e then 207 else 500),
       headers = [],
       body = json_dumps (PDict
         [(''message'', PStr (if dynamodb_up e \<and> s3_up e
                              then ''Telemetry processed successfully''
                              else if dynamodb_up e \<or> s3_up e
                              then ''Telemetry partially processed''
                              else ''Failed to process telemetry'')),
          (''station_id'', PStr sid),
          (''dynamodb_success'', PBool (dynamodb_up e)),
          (''s3_success'', PBool (s3_up e)),
          (''timestamp'', PStr (response_time e))])\<rparr>,
      snd (archive_to_s3 e event (snd (store_in_dynamodb e event w))))"
  by (simp add: lambda_handler_def lambda_handler_try_valid [OF assms])

lemma validate_negative_count:
  "validate_telemetry negative_count_event =
     Inr (False, Some ''battery_available must be a non-negative number'')"
  by (simp add: negative_count_event_def validate_defs)

lemma validate_numeric_timestamp:
  "validate_telemetry numeric_timestamp_event =
     Inr (False, Some ''timestamp must be valid ISO-8601 format'')"
  by (simp add: numeric_timestamp_event_def validate_defs parse_defs)

subsection \<open>Outcome of an ingest\<close>

text \<open>
  Claim C1. For a record the validator accepts, the fast-store write succeeds exactly when
  the fast store accepts the call and the archival write succeeds exactly when the archival
  store accepts the call, independently of each other. The status code of the handler is
  200 when both writes succeed, 207 when exactly one succeeds and 500 when neither does.
  In each case \<^verbatim>\<open>put_item\<close> is called exactly once and \<^verbatim>\<open>put_object\<close> is called
  exactly once: nothing is retried.
\<close>

theorem ingest_outcome:
  assumes "validate_telemetry event = Inr (True, r)"
  shows "fst (store_in_dynamodb e event w) = dynamodb_up e \<and>
         fst (archive_to_s3 e event (snd (store_in_dynamodb e event w))) = s3_up e \<and>
         statusCode (fst (lambda_handler e event w)) =
           (if fst (store_in_dynamodb e event w) \<and>
               fst (archive_to_s3 e event (snd (store_in_dynamodb e event w))) then 200
            else if fst (store_in_dynamodb e event w) \<or>
                    fst (archive_to_s3 e event (snd (store_in_dynamodb e event w))) then 207
            else 500) \<and>
         put_item_calls (snd (lambda_handler e event w)) = Suc (put_item_calls w) \<and>
         put_object_calls (snd (lambda_handler e event w)) = Suc (put_object_calls w)"
proof -
  from assms obtain sid t where sid: "map_of event ''station_id'' = Some (PStr sid)"
    and ne: "sid \<noteq> []" and t: "parse_timestamp event = Inr t"
    by (rule validated_record)
  show ?thesis
    by (simp add: lambda_handler_valid [OF assms t sid ne] store_in_dynamodb_valid [OF sid ne]
        archive_to_s3_valid [OF t sid])
qed

theorem ingest_outcome_witness:
  "validate_telemetry sample_event = Inr (True, None) \<and>
   statusCode (fst (lambda_handler sample_env sample_event empty_world)) = 200 \<and>
   statusCode (fst (lambda_handler (sample_env\<lparr>dynamodb_up := False\<rparr>) sample_event
                      empty_world)) = 207 \<and>
   statusCode (fst (lambda_handler (sample_env\<lparr>s3_up := False\<rparr>) sample_event
                      empty_world)) = 207 \<and>
   statusCode (fst (lambda_handler (sample_env\<lparr>dynamodb_up := False, s3_up := False\<rparr>)
                      sample_event empty_world)) = 500 \<and>
   put_item_calls (snd (lambda_handler (sample_env\<lparr>dynamodb_up := False\<rparr>) sample_event
                          empty_world)) = 1"
  using ingest_outcome [OF validate_sample, of sample_env empty_world]
    ingest_outcome [OF validate_sample, of "sample_env\<lparr>dynamodb_up := False\<rparr>" empty_world]
    ingest_outcome [OF validate_sample, of "sample_env\<lparr>s3_up := False\<rparr>" empty_world]
    ingest_outcome [OF validate_sample,
      of "sample_env\<lparr>dynamodb_up := False, s3_up := False\<rparr>" empty_world]
  by (simp add: validate_sample sample_env_def empty_world_def)

subsection \<open>Rejected records\<close>

text \<open>
  Claim C2. For a record the validator rejects, the handler returns the status-400 response
  whose body holds the validator's reason, and the stores it returns are the stores it was
  given: no item is put, no object is put, and neither \<^verbatim>\<open>put_item\<close> nor
  \<^verbatim>\<open>put_object\<close> is called.
\<close>

theorem rejected_record_no_write:
  assumes "validate_telemetry event = Inr (False, r)"
  shows "\<exists>reason. r = Some reason \<and>
           lambda_handler e event w =
             (\<lparr>statusCode = 400, headers = [],
               body = json_dumps (PDict [(''error'', PStr ''Validation failed''),
                                         (''message'', PStr reason)])\<rparr>, w)"
proof -
  from validate_rejected_reason [OF assms] obtain reason where "r = Some reason" ..
  with assms show ?thesis by (simp add: lambda_handler_def lambda_handler_try_def)
qed

theorem rejected_record_no_write_witness:
  "validate_telemetry negative_count_event =
     Inr (False, Some ''battery_available must be a non-negative number'') \<and>
   lambda_handler sample_env negative_count_event empty_world =
     (\<lparr>statusCode = 400, headers = [],
       body = json_dumps (PDict
         [(''error'', PStr ''Validation failed''),
          (''message'', PStr ''battery_available must be a non-negative number'')])\<rparr>,
      empty_world)"
  using rejected_record_no_write [OF validate_negative_count, of sample_env empty_world]
  by (simp add: validate_negative_count)

subsection \<open>Failures of the stores\<close>

text \<open>
  Claim C3. For a record the validator accepts: when the fast store refuses the call, the
  \<^verbatim>\<open>try\<close> block of \<^verbatim>\<open>store_in_dynamodb\<close> ends in an exception and
  \<^verbatim>\<open>store_in_dynamodb\<close> itself returns \<^verbatim>\<open>False\<close>; the same holds for the archival
  store and \<^verbatim>\<open>archive_to_s3\<close>. Whatever the fast-store write did, the handler then
  runs the archival write on the stores the fast-store write left, \<^verbatim>\<open>put_object\<close> is
  called once, and the \<^verbatim>\<open>try\<close> block of the handler returns a response (no exception
  leaves it) whose body records the two results.
\<close>

theorem store_failures_caught:
  assumes "validate_telemetry event = Inr (True, r)"
  shows "fst (store_in_dynamodb_try e event w) =
           (if dynamodb_up e then Inr True else Inl ClientError) \<and>
         fst (store_in_dynamodb e event w) = dynamodb_up e \<and>
         fst (archive_to_s3_try e event w1) =
           (if s3_up e then Inr True else Inl ClientError) \<and>
         fst (archive_to_s3 e event w1) = s3_up e \<and>
         put_object_calls (snd (archive_to_s3 e event w1)) = Suc (put_object_calls w1) \<and>
         (\<exists>resp sid message.
            lambda_handler_try e event w =
              (Inr resp, snd (archive_to_s3 e event (snd (store_in_dynamodb e event w)))) \<and>
            body resp = json_dumps (PDict
              [(''message'', PStr message), (''station_id'', PStr sid),
               (''dynamodb_success'', PBool (dynamodb_up e)),
               (''s3_success'', PBool (s3_up e)),
               (''timestamp'', PStr (response_time e))]))"
proof -
  from assms obtain sid t where sid: "map_of event ''station_id'' = Some (PStr sid)"
    and ne: "sid \<noteq> []" and t: "parse_timestamp event = Inr t"
    by (rule validated_record)
  have "fst (store_in_dynamodb_try e event w) =
          (if dynamodb_up e then Inr True else Inl ClientError)"
    by (simp add: store_in_dynamodb_try_valid [OF sid ne])
  moreover have "fst (store_in_dynamodb e event w) = dynamodb_up e"
    by (simp add: store_in_dynamodb_valid [OF sid ne])
  moreover have "fst (archive_to_s3_try e event w1) =
          (if s3_up e then Inr True else Inl ClientError)"
    by (simp add: archive_to_s3_try_valid [OF t sid])
  moreover have "fst (archive_to_s3 e event w1) = s3_up e"
    by (simp add: archive_to_s3_valid [OF t sid])
  moreover have "put_object_calls (snd (archive_to_s3 e event w1)) = Suc (put_object_calls w1)"
    by (simp add: archive_to_s3_valid [OF t sid])
  moreover have "\<exists>resp sid message.
            lambda_handler_try e event w =
              (Inr resp, snd (archive_to_s3 e event (snd (store_in_dynamodb e event w)))) \<and>
            body resp = json_dumps (PDict
              [(''message'', PStr message), (''station_id'', PStr sid),
               (''dynamodb_success'', PBool (dynamodb_up e)),
               (''s3_success'', PBool (s3_up e)),
               (''timestamp'', PStr (response_time e))])"
    unfolding lambda_handler_try_valid [OF assms t sid ne] by auto
  ultimately show ?thesis by (intro conjI)
qed

theorem store_failures_caught_witness:
  "validate_telemetry sample_event = Inr (True, None) \<and>
   fst (store_in_dynamodb_try (sample_env\<lparr>dynamodb_up := False\<rparr>) sample_event empty_world) =
     Inl ClientError \<and>
   fst (store_in_dynamodb (sample_env\<lparr>dynamodb_up := False\<rparr>) sample_event empty_world) =
     False \<and>
   fst (archive_to_s3 (sample_env\<lparr>dynamodb_up := False\<rparr>) sample_event
          (snd (store_in_dynamodb (sample_env\<lparr>dynamodb_up := False\<rparr>) sample_event
                  empty_world))) = True"
  using store_failures_caught [OF validate_sample,
      of "sample_env\<lparr>dynamodb_up := False\<rparr>" empty_world
         "snd (store_in_dynamodb (sample_env\<lparr>dynamodb_up := False\<rparr>) sample_event
                 empty_world)"]
  by (simp add: validate_sample sample_env_def)

subsection \<open>The battery count check\<close>

text \<open>
  The check of \<^verbatim>\<open>battery_available\<close> is the third the validator makes. On a record with
  a blank station id and a negative count, the station id is what it reports.
\<close>

theorem negative_count_blank_station:
  "validate_telemetry
     [(''station_id'', PStr ''''), (''battery_available'', PInt (- 1)),
      (''timestamp'', PStr ''2024-01-15T14:23:45Z'')] =
   Inr (False, Some ''station_id must be a non-empty string'')"
  by (simp add: validate_defs)

text \<open>
  \<^verbatim>\<open>bool\<close> is a subclass of \<^verbatim>\<open>int\<close>, so a boolean passes the \<^verbatim>\<open>isinstance\<close>
  test of the check, whose comment in the source says that it validates that
  \<^verbatim>\<open>battery_available\<close> is a number.
\<close>

lemma boolean_count_accepted:
  "validate_telemetry
     [(''station_id'', PStr ''station-01''), (''battery_available'', PBool True),
      (''timestamp'', PStr ''2024-01-15T14:23:45Z'')] =
   Inr (True, None)"
  by (simp add: validate_defs parse_defs)

text \<open>
  Claim C8, for records that pass the earlier checks and whose count is not a boolean.
  Take a record that has the three required fields and whose \<^verbatim>\<open>station_id\<close> is a
  string that is not blank, and let its \<^verbatim>\<open>battery_available\<close> be any value other than
  \<^verbatim>\<open>True\<close> and \<^verbatim>\<open>False\<close>. If that value is not a number, or is a number below zero,
  the validator rejects the record with the reason
  \<^verbatim>\<open>battery_available must be a non-negative number\<close>. And whenever the validator
  accepts a record, \<^verbatim>\<open>battery_available\<close> is present, and unless it is a boolean it is
  a number that is not below zero.
\<close>

theorem battery_count_check:
  "(\<forall>sid v. map_of data ''station_id'' = Some (PStr sid) \<and> strip sid \<noteq> [] \<and>
            map_of data ''timestamp'' \<noteq> None \<and>
            map_of data ''battery_available'' = Some v \<and>
            \<not> is_bool v \<and> \<not> nonneg_number v \<longrightarrow>
            validate_telemetry data =
              Inr (False, Some ''battery_available must be a non-negative number'')) \<and>
   (\<forall>r. validate_telemetry data = Inr (True, r) \<longrightarrow>
        (\<exists>v. map_of data ''battery_available'' = Some v \<and>
             (\<not> is_bool v \<longrightarrow> nonneg_number v)))"
proof (intro conjI allI impI)
  fix sid v
  assume a: "map_of data ''station_id'' = Some (PStr sid) \<and> strip sid \<noteq> [] \<and>
            map_of data ''timestamp'' \<noteq> None \<and>
            map_of data ''battery_available'' = Some v \<and>
            \<not> is_bool v \<and> \<not> nonneg_number v"
  then have fm: "first_missing data required_fields = None"
    by (simp add: first_missing_required)
  from a have "\<not> isinstance_int_float v \<or> less_zero v"
    by (cases v) (simp_all add: nonneg_number_def)
  with a fm show "validate_telemetry data =
              Inr (False, Some ''battery_available must be a non-negative number'')"
    by (simp add: validate_passes_earlier_checks)
next
  fix r
  assume "validate_telemetry data = Inr (True, r)"
  from validate_accepted [OF this] obtain v where
    v: "map_of data ''battery_available'' = Some v" "isinstance_int_float v" "\<not> less_zero v"
    by blast
  from v(2,3) have "\<not> is_bool v \<longrightarrow> nonneg_number v"
    by (cases v) (simp_all add: nonneg_number_def)
  with v(1) show "\<exists>v. map_of data ''battery_available'' = Some v \<and>
             (\<not> is_bool v \<longrightarrow> nonneg_number v)"
    by blast
qed

theorem battery_count_check_witness:
  "validate_telemetry negative_count_event =
     Inr (False, Some ''battery_available must be a non-negative number'') \<and>
   validate_telemetry sample_event = Inr (True, None) \<and>
   (\<exists>v. map_of sample_event ''battery_available'' = Some v \<and>
        (\<not> is_bool v \<longrightarrow> nonneg_number v))"
proof -
  have "validate_telemetry negative_count_event =
     Inr (False, Some ''battery_available must be a non-negative number'')"
    using battery_count_check [of negative_count_event, THEN conjunct1, rule_format,
        of "''station-01''" "PInt (- 1)"]
    by (simp add: negative_count_event_def strip_def is_space_def nonneg_number_def)
  moreover have "\<exists>v. map_of sample_event ''battery_available'' = Some v \<and>
      (\<not> is_bool v \<longrightarrow> nonneg_number v)"
    using battery_count_check [of sample_event, THEN conjunct2, rule_format, of None]
    by (simp add: validate_sample)
  ultimately show ?thesis by (simp add: validate_sample)
qed

subsection \<open>The validator never raises\<close>

text \<open>
  The timestamp is the last thing the validator looks at. On a record whose timestamp is a
  number and whose battery count is negative, the battery count is what it reports.
\<close>

theorem numeric_timestamp_negative_count:
  "validate_telemetry
     [(''station_id'', PStr ''station-01''), (''battery_available'', PInt (- 1)),
      (''timestamp'', PInt 1705328625)] =
   Inr (False, Some ''battery_available must be a non-negative number'')"
  by (simp add: validate_defs)

text \<open>
  Claim C10, with the reason for records that pass the earlier checks.
  On every dictionary \<^verbatim>\<open>validate_telemetry\<close> returns a pair of a
  verdict and a reason; no exception leaves it. A record that passes the checks made before
  the timestamp is looked at (the three required fields are present, \<^verbatim>\<open>station_id\<close> is
  a string that is not blank, \<^verbatim>\<open>battery_available\<close> is a number that is not below zero)
  and whose \<^verbatim>\<open>timestamp\<close> is not a string is rejected with the reason
  \<^verbatim>\<open>timestamp must be valid ISO-8601 format\<close>.
\<close>

theorem validate_telemetry_total:
  "(\<exists>verdict reason. validate_telemetry data = Inr (verdict, reason)) \<and>
   (\<forall>sid b v. map_of data ''station_id'' = Some (PStr sid) \<and> strip sid \<noteq> [] \<and>
              map_of data ''battery_available'' = Some b \<and> isinstance_int_float b \<and>
              \<not> less_zero b \<and>
              map_of data ''timestamp'' = Some v \<and> (\<forall>s. v \<noteq> PStr s) \<longrightarrow>
              validate_telemetry data =
                Inr (False, Some ''timestamp must be valid ISO-8601 format''))"
proof (intro conjI allI impI)
  show "\<exists>verdict reason. validate_telemetry data = Inr (verdict, reason)"
    by (rule validate_never_raises)
next
  fix sid b v
  assume a: "map_of data ''station_id'' = Some (PStr sid) \<and> strip sid \<noteq> [] \<and>
              map_of data ''battery_available'' = Some b \<and> isinstance_int_float b \<and>
              \<not> less_zero b \<and>
              map_of data ''timestamp'' = Some v \<and> (\<forall>s. v \<noteq> PStr s)"
  then have fm: "first_missing data required_fields = None"
    by (simp add: first_missing_required)
  from a have "parse_timestamp data = Inl AttributeError"
    by (simp add: parse_timestamp_not_str)
  with a fm show "validate_telemetry data =
                Inr (False, Some ''timestamp must be valid ISO-8601 format'')"
    by (simp add: validate_passes_earlier_checks)
qed

theorem validate_telemetry_total_witness:
  "validate_telemetry numeric_timestamp_event =
     Inr (False, Some ''timestamp must be valid ISO-8601 format'')"
  using validate_telemetry_total [of numeric_timestamp_event, THEN conjunct2, rule_format,
      of "''station-01''" "PInt 12" "PInt 1705328625"]
  by (simp add: numeric_timestamp_event_def strip_def is_space_def)

subsection \<open>Decimal and hexadecimal formatting\<close>

lemma digit_char_is_digit: "n < 10 \<Longrightarrow> is_digit (digit_char n)"
proof -
  assume "n < 10"
  then have "n \<in> {0, 1, 2, 3, 4, 5, 6, 7, 8, 9}" by auto
  then show ?thesis by (auto simp: digit_char_def is_digit_def)
qed

lemma digit_char_is_hex: "is_hex_digit (digit_char n)"
proof -
  have "m < 16 \<Longrightarrow> m \<in> {0, 1, 2, 3, 4, 5, 6, 7, 8, 9, 10, 11, 12, 13, 14, 15}"
    for m :: nat by (simp, arith)
  from this [of "n mod 16"]
  have "n mod 16 \<in> {0, 1, 2, 3, 4, 5, 6, 7, 8, 9, 10, 11, 12, 13, 14, 15}" by simp
  then show ?thesis unfolding digit_char_def is_hex_digit_def by auto
qed

lemma digit_val_digit_char: "n < 10 \<Longrightarrow> digit_val (digit_char n) = Some n"
proof -
  assume "n < 10"
  then have "n \<in> {0, 1, 2, 3, 4, 5, 6, 7, 8, 9}" by auto
  then show ?thesis by (auto simp: digit_char_def digit_val_def)
qed

lemma number_acc_snoc:
  "number_acc a (s @ [c]) =
     (case number_acc a s of
        None \<Rightarrow> None
      | Some m \<Rightarrow> (case digit_val c of None \<Rightarrow> None | Some d \<Rightarrow> Some (10 * m + d)))"
  by (induction s arbitrary: a) (auto split: option.splits)

lemma str_nat_all_digits: "list_all is_digit (str_nat n)"
proof (induction n rule: str_nat.induct)
  case (1 n)
  show ?case
  proof (cases "n < 10")
    case True
    then show ?thesis by (simp add: str_nat.simps [of n] digit_char_is_digit)
  next
    case False
    with 1 show ?thesis by (simp add: str_nat.simps [of n] digit_char_is_digit)
  qed
qed

lemma number_acc_str_nat: "number_acc 0 (str_nat n) = Some n"
proof (induction n rule: str_nat.induct)
  case (1 n)
  show ?case
  proof (cases "n < 10")
    case True
    then show ?thesis by (simp add: str_nat.simps [of n] digit_val_digit_char)
  next
    case False
    with 1 have "number_acc 0 (str_nat (n div 10)) = Some (n div 10)" by simp
    with False show ?thesis
      by (simp add: str_nat.simps [of n] number_acc_snoc digit_val_digit_char)
  qed
qed

lemma str_nat_not_Nil: "str_nat n \<noteq> []"
  by (simp add: str_nat.simps [of n])

lemma length_str_nat_small: "n < 10 \<Longrightarrow> length (str_nat n) = 1"
  by (simp add: str_nat.simps [of n])

lemma length_str_nat_step: "10 \<le> n \<Longrightarrow> length (str_nat n) = Suc (length (str_nat (n div 10)))"
  by (simp add: str_nat.simps [of n])

lemma pad2_decimal: "n < 100 \<Longrightarrow> decimal 2 n (pad2 n)"
proof -
  assume n: "n < 100"
  show ?thesis
  proof (cases "n < 10")
    case True
    then have "is_digit (CHR ''0'')" by (simp add: is_digit_def)
    with True show ?thesis
      using number_acc_str_nat [of n]
      by (simp add: decimal_def digits_def pad2_def length_str_nat_small str_nat_all_digits
          number_def digit_val_def)
  next
    case False
    with n have "n div 10 < 10" by simp
    with False show ?thesis
      by (simp add: decimal_def digits_def pad2_def length_str_nat_step length_str_nat_small
          str_nat_all_digits number_def number_acc_str_nat str_nat_not_Nil)
  qed
qed

lemma year_decimal: "1000 \<le> n \<Longrightarrow> n \<le> 9999 \<Longrightarrow> decimal 4 n (str_nat n)"
proof -
  assume lo: "1000 \<le> n" and hi: "n \<le> 9999"
  from lo have 1: "10 \<le> n" and 2: "10 \<le> n div 10" and 3: "10 \<le> n div 10 div 10"
    by simp_all
  from hi have 4: "n div 10 div 10 div 10 < 10" by simp
  have "length (str_nat n) = 4"
    by (simp add: length_str_nat_step [OF 1] length_str_nat_step [OF 2]
        length_str_nat_step [OF 3] length_str_nat_small [OF 4])
  then show ?thesis
    by (simp add: decimal_def digits_def str_nat_all_digits number_def number_acc_str_nat
        str_nat_not_Nil)
qed

lemma hex_digits_hex: "hex_string k (hex_digits k n)"
  by (induction k arbitrary: n) (simp_all add: hex_string_def digit_char_is_hex)

lemma suffix_hex: "hex_string 8 (take 8 (uuid_hex u))"
proof -
  have h: "hex_string 32 (hex_digits 32 u)" by (rule hex_digits_hex)
  then have "length (take 8 (hex_digits 32 u)) = 8" by (simp add: hex_string_def)
  moreover from h have "list_all is_hex_digit (take 8 (hex_digits 32 u))"
    by (auto simp: hex_string_def list_all_iff dest: in_set_takeD)
  ultimately show ?thesis by (simp add: hex_string_def uuid_hex_def)
qed

lemma fromisoformat_fields:
  assumes "fromisoformat s = Inr t"
  shows "1 \<le> year t \<and> year t \<le> 9999 \<and> month t < 100 \<and> day t < 100 \<and>
         hour t < 100 \<and> minute t < 100 \<and> second t < 100"
proof -
  have d: "days_in_month y m \<le> 31" for y m by (simp add: days_in_month_def)
  have n: "new_datetime a b = Inr t \<Longrightarrow> 1 \<le> year t \<and> year t \<le> 9999 \<and> month t < 100 \<and>
      day t < 100 \<and> hour t < 100 \<and> minute t < 100 \<and> second t < 100" for a b
    using d [of "fst a" "fst (snd a)"]
    by (auto simp: new_datetime_def split: prod.splits if_splits)
  from assms show ?thesis
    by (auto simp: fromisoformat_def split: option.splits if_splits dest: n)
qed

lemma parse_timestamp_fields:
  assumes "parse_timestamp data = Inr t"
  shows "1 \<le> year t \<and> year t \<le> 9999 \<and> month t < 100 \<and> day t < 100 \<and>
         hour t < 100 \<and> minute t < 100 \<and> second t < 100"
  using assms
  by (auto simp: parse_timestamp_def split: sum.splits dest: fromisoformat_fields)

lemma lambda_handler_world:
  assumes "validate_telemetry event = Inr (True, r)"
    and "parse_timestamp event = Inr t" "map_of event ''station_id'' = Some (PStr sid)"
    and "sid \<noteq> []" and "dynamodb_up e" "s3_up e"
  shows "snd (lambda_handler e event w) =
           w\<lparr>put_item_calls := Suc (put_item_calls w),
             table := (table w)(sid \<mapsto> stored_item e event),
             put_object_calls := Suc (put_object_calls w),
             bucket := (bucket w)(s3_key t sid (uuid4 e) \<mapsto> archived_object e event sid)\<rparr>"
  using assms(5,6)
  by (simp add: lambda_handler_valid [OF assms(1-4)] store_in_dynamodb_valid [OF assms(3,4)]
      archive_to_s3_valid [OF assms(2,3)])

lemma s3_key_suffix:
  "s3_key t sid u1 = s3_key t sid u2 \<longleftrightarrow> take 8 (uuid_hex u1) = take 8 (uuid_hex u2)"
  by (simp add: s3_key_def)

lemma second_suffix: "take 8 (uuid_hex (uuid4 second_env)) = ''12345678''"
  by (simp add: second_env_def uuid_hex_def hex_digits_numeral digit_char_def)

lemma sample_station: "map_of sample_event ''station_id'' = Some (PStr ''station-01'')"
  by (simp add: sample_event_def)

subsection \<open>Ingesting a record twice\<close>

text \<open>
  The archival key ends in the first eight hexadecimal digits of a fresh UUID. Two UUIDs
  that differ can agree on these digits. Then two ingests of the same record, both with
  status 200, write the same key, and the archival store holds one object, not two.
\<close>

theorem same_suffix_one_object:
  "uuid4 sample_env \<noteq> uuid4 second_env \<and>
   statusCode (fst (lambda_handler sample_env sample_event empty_world)) = 200 \<and>
   statusCode (fst (lambda_handler second_env sample_event
                      (snd (lambda_handler sample_env sample_event empty_world)))) = 200 \<and>
   dom (bucket (snd (lambda_handler second_env sample_event
                       (snd (lambda_handler sample_env sample_event empty_world))))) =
     {''telemetry/year=2024/month=01/day=15/station-01_20240115_142345_12345678.json''}"
proof -
  have up: "dynamodb_up sample_env" "s3_up sample_env" "dynamodb_up second_env"
    "s3_up second_env"
    by (simp_all add: sample_env_def second_env_def)
  have ne: "''station-01'' \<noteq> []" by simp
  note v = validate_sample parse_sample sample_station ne
  have k: "s3_key sample_datetime ''station-01'' (uuid4 second_env) =
           s3_key sample_datetime ''station-01'' (uuid4 sample_env)"
    by (simp add: s3_key_suffix sample_suffix second_suffix)
  have "uuid4 sample_env \<noteq> uuid4 second_env"
    by (simp add: sample_env_def second_env_def)
  moreover have "statusCode (fst (lambda_handler sample_env sample_event empty_world)) = 200"
    by (simp add: lambda_handler_valid [OF v] up)
  moreover have "statusCode (fst (lambda_handler second_env sample_event
                      (snd (lambda_handler sample_env sample_event empty_world)))) = 200"
    by (simp add: lambda_handler_valid [OF v] up)
  moreover have "dom (bucket (snd (lambda_handler second_env sample_event
                       (snd (lambda_handler sample_env sample_event empty_world))))) =
     {''telemetry/year=2024/month=01/day=15/station-01_20240115_142345_12345678.json''}"
    by (simp add: lambda_handler_world [OF v] up k sample_key empty_world_def)
  ultimately show ?thesis by (intro conjI)
qed

text \<open>
  Claim C5, for two ingests whose key suffixes differ.
  Let the same valid record be ingested twice, both writes of both
  invocations succeeding, and let the eight hexadecimal digits that end the two archival
  keys differ. Then the fast store is the one before the two ingests with the row of that
  station id replaced by the item of the second ingest (one row for the station, last
  write wins), and the archival store is the one before with two objects added under two
  different keys.
\<close>

theorem ingest_twice:
  assumes "validate_telemetry event = Inr (True, r)"
    and "map_of event ''station_id'' = Some (PStr sid)"
    and "parse_timestamp event = Inr t"
    and "dynamodb_up e1" "s3_up e1" "dynamodb_up e2" "s3_up e2"
    and "take 8 (uuid_hex (uuid4 e1)) \<noteq> take 8 (uuid_hex (uuid4 e2))"
  shows "table (snd (lambda_handler e2 event (snd (lambda_handler e1 event w)))) =
           (table w)(sid \<mapsto> stored_item e2 event) \<and>
         s3_key t sid (uuid4 e1) \<noteq> s3_key t sid (uuid4 e2) \<and>
         bucket (snd (lambda_handler e2 event (snd (lambda_handler e1 event w)))) =
           (bucket w)(s3_key t sid (uuid4 e1) \<mapsto> archived_object e1 event sid,
                      s3_key t sid (uuid4 e2) \<mapsto> archived_object e2 event sid)"
proof -
  from assms(1) obtain sid' t' where "map_of event ''station_id'' = Some (PStr sid')"
    and "sid' \<noteq> []" and "parse_timestamp event = Inr t'"
    by (rule validated_record)
  with assms(2,3) have ne: "sid \<noteq> []" by simp
  note v = assms(1) assms(3) assms(2) ne
  have 1: "snd (lambda_handler e1 event w) =
           w\<lparr>put_item_calls := Suc (put_item_calls w),
             table := (table w)(sid \<mapsto> stored_item e1 event),
             put_object_calls := Suc (put_object_calls w),
             bucket := (bucket w)(s3_key t sid (uuid4 e1) \<mapsto> archived_object e1 event sid)\<rparr>"
    using assms(4,5) by (rule lambda_handler_world [OF v])
  have 2: "snd (lambda_handler e2 event w1) =
           w1\<lparr>put_item_calls := Suc (put_item_calls w1),
             table := (table w1)(sid \<mapsto> stored_item e2 event),
             put_object_calls := Suc (put_object_calls w1),
             bucket := (bucket w1)(s3_key t sid (uuid4 e2) \<mapsto> archived_object e2 event sid)\<rparr>"
    for w1 using assms(6,7) by (rule lambda_handler_world [OF v])
  from assms(8) have k: "s3_key t sid (uuid4 e1) \<noteq> s3_key t sid (uuid4 e2)"
    by (simp add: s3_key_suffix)
  show ?thesis by (simp add: 1 2 k)
qed

theorem ingest_twice_witness:
  "validate_telemetry sample_event = Inr (True, None) \<and>
   table (snd (lambda_handler (second_env\<lparr>uuid4 := 0x9abcdef000004000800000000000abcd\<rparr>)
                 sample_event (snd (lambda_handler sample_env sample_event empty_world)))) =
     [''station-01'' \<mapsto>
        stored_item (second_env\<lparr>uuid4 := 0x9abcdef000004000800000000000abcd\<rparr>) sample_event] \<and>
   dom (bucket (snd (lambda_handler (second_env\<lparr>uuid4 := 0x9abcdef000004000800000000000abcd\<rparr>)
                 sample_event (snd (lambda_handler sample_env sample_event empty_world))))) =
     {''telemetry/year=2024/month=01/day=15/station-01_20240115_142345_12345678.json'',
      ''telemetry/year=2024/month=01/day=15/station-01_20240115_142345_9abcdef0.json''}"
proof -
  have s: "take 8 (uuid_hex 0x9abcdef000004000800000000000abcd) = ''9abcdef0''"
    by (simp add: uuid_hex_def hex_digits_numeral digit_char_def)
  have k2: "s3_key sample_datetime ''station-01'' 0x9abcdef000004000800000000000abcd =
     ''telemetry/year=2024/month=01/day=15/station-01_20240115_142345_9abcdef0.json''"
    by (simp add: s3_key_def strftime_Ymd_HMS_def pad2_def str_nat.simps digit_char_def s
        sample_datetime_def)
  have up1: "dynamodb_up sample_env" "s3_up sample_env"
    by (simp_all add: sample_env_def)
  have up2: "dynamodb_up (second_env\<lparr>uuid4 := 0x9abcdef000004000800000000000abcd\<rparr>)"
    "s3_up (second_env\<lparr>uuid4 := 0x9abcdef000004000800000000000abcd\<rparr>)"
    by (simp_all add: second_env_def)
  have d: "take 8 (uuid_hex (uuid4 sample_env)) \<noteq>
           take 8 (uuid_hex (uuid4 (second_env\<lparr>uuid4 := 0x9abcdef000004000800000000000abcd\<rparr>)))"
    by (simp add: sample_suffix s)
  from ingest_twice [OF validate_sample sample_station parse_sample up1 up2 d, of empty_world]
  show ?thesis
    by (simp add: validate_sample sample_key k2 empty_world_def insert_commute)
qed

subsection \<open>The archival object and its key\<close>

text \<open>
  \<^verbatim>\<open>{timestamp.year}\<close> formats the year without padding. A timestamp in the year 999
  is valid ISO-8601, the validator accepts the record, and the key starts with
  \<^verbatim>\<open>telemetry/year=999/\<close>: the year has three digits, not four.
\<close>

theorem early_year_key:
  "validate_telemetry early_event = Inr (True, None) \<and>
   parse_timestamp early_event = Inr early_datetime \<and>
   str_nat (year early_datetime) = ''999'' \<and>
   take 19 (s3_key early_datetime ''station-01'' (uuid4 sample_env)) = ''telemetry/year=999/''"
proof -
  have "validate_telemetry early_event = Inr (True, None)"
    by (simp add: early_event_def validate_defs parse_defs)
  moreover have "parse_timestamp early_event = Inr early_datetime"
    by (simp add: early_event_def early_datetime_def parse_defs)
  moreover have y: "str_nat (year early_datetime) = ''999''"
    by (simp add: early_datetime_def str_nat.simps digit_char_def)
  moreover have
    "take 19 (s3_key early_datetime ''station-01'' (uuid4 sample_env)) = ''telemetry/year=999/''"
    by (simp add: s3_key_def y)
  ultimately show ?thesis by (intro conjI)
qed

text \<open>
  Claim C6, for timestamps from the year 1000 on.
  For a validated record whose timestamp has a year of at least 1000,
  when the archival store accepts the call: \<^verbatim>\<open>archive_to_s3\<close> returns \<^verbatim>\<open>True\<close> and
  puts one object. Its body is the serialisation of the record as it was received, not of
  the copy made for the fast store. Its key is
  \<^verbatim>\<open>telemetry/year=Y/month=M/day=D/SID_YMD_hms_H.json\<close>, where \<open>SID\<close> is the station id
  of the record, \<open>Y\<close> is the year of the record's timestamp in four decimal digits, \<open>M\<close>,
  \<open>D\<close>, \<open>h\<close>, \<open>m\<close> and \<open>s\<close> are its month, day, hour, minute and second in two decimal
  digits each, and \<open>H\<close> is eight hexadecimal digits. The wall clock appears in the metadata
  only.
\<close>

theorem archive_object_key:
  assumes "validate_telemetry event = Inr (True, r)"
    and "map_of event ''station_id'' = Some (PStr sid)"
    and "parse_timestamp event = Inr t" and "1000 \<le> year t" and "s3_up e"
  shows "archive_to_s3 e event w =
           (True,
            w\<lparr>put_object_calls := Suc (put_object_calls w),
              bucket := (bucket w)
                (''telemetry/year='' @ str_nat (year t) @ ''/month='' @ pad2 (month t) @
                 ''/day='' @ pad2 (day t) @ ''/'' @ sid @ ''_'' @
                 str_nat (year t) @ pad2 (month t) @ pad2 (day t) @ ''_'' @
                 pad2 (hour t) @ pad2 (minute t) @ pad2 (second t) @ ''_'' @
                 take 8 (uuid_hex (uuid4 e)) @ ''.json'' \<mapsto>
                 \<lparr>Body = json_dumps (PDict event), ContentType = ''application/json'',
                   Metadata = [(''station_id'', sid),
                               (''ingestion_time'', ingestion_time e)]\<rparr>)\<rparr>) \<and>
         decimal 4 (year t) (str_nat (year t)) \<and>
         decimal 2 (month t) (pad2 (month t)) \<and>
         decimal 2 (day t) (pad2 (day t)) \<and>
         decimal 2 (hour t) (pad2 (hour t)) \<and>
         decimal 2 (minute t) (pad2 (minute t)) \<and>
         decimal 2 (second t) (pad2 (second t)) \<and>
         hex_string 8 (take 8 (uuid_hex (uuid4 e)))"
proof -
  from parse_timestamp_fields [OF assms(3)]
  have f: "year t \<le> 9999" "month t < 100" "day t < 100" "hour t < 100" "minute t < 100"
    "second t < 100" by simp_all
  have "archive_to_s3 e event w =
           (True,
            w\<lparr>put_object_calls := Suc (put_object_calls w),
              bucket := (bucket w)
                (''telemetry/year='' @ str_nat (year t) @ ''/month='' @ pad2 (month t) @
                 ''/day='' @ pad2 (day t) @ ''/'' @ sid @ ''_'' @
                 str_nat (year t) @ pad2 (month t) @ pad2 (day t) @ ''_'' @
                 pad2 (hour t) @ pad2 (minute t) @ pad2 (second t) @ ''_'' @
                 take 8 (uuid_hex (uuid4 e)) @ ''.json'' \<mapsto>
                 \<lparr>Body = json_dumps (PDict event), ContentType = ''application/json'',
                   Metadata = [(''station_id'', sid),
                               (''ingestion_time'', ingestion_time e)]\<rparr>)\<rparr>)"
    using assms(5)
    by (simp add: archive_to_s3_valid [OF assms(3,2)] s3_key_def strftime_Ymd_HMS_def
        archived_object_def)
  with f assms(4) show ?thesis
    by (simp add: year_decimal pad2_decimal suffix_hex)
qed

theorem archive_object_key_witness:
  "validate_telemetry sample_event = Inr (True, None) \<and>
   parse_timestamp sample_event = Inr sample_datetime \<and>
   archive_to_s3 sample_env sample_event empty_world =
     (True,
      empty_world\<lparr>put_object_calls := 1,
        bucket :=
          [''telemetry/year=2024/month=01/day=15/station-01_20240115_142345_12345678.json''
           \<mapsto> \<lparr>Body = json_dumps (PDict sample_event), ContentType = ''application/json'',
                Metadata = [(''station_id'', ''station-01''),
                            (''ingestion_time'', ''2024-01-15T14:23:46.200000'')]\<rparr>]\<rparr>)"
proof -
  have y: "1000 \<le> year sample_datetime" and up: "s3_up sample_env"
    by (simp_all add: sample_datetime_def sample_env_def)
  have i: "ingestion_time sample_env = ''2024-01-15T14:23:46.200000''"
    by (simp add: sample_env_def)
  have p: "str_nat (year sample_datetime) = ''2024''" "pad2 (month sample_datetime) = ''01''"
    "pad2 (day sample_datetime) = ''15''" "pad2 (hour sample_datetime) = ''14''"
    "pad2 (minute sample_datetime) = ''23''" "pad2 (second sample_datetime) = ''45''"
    by (simp_all add: sample_datetime_def pad2_def str_nat.simps digit_char_def)
  from archive_object_key [OF validate_sample sample_station parse_sample y up, of empty_world]
  show ?thesis
    by (simp add: validate_sample parse_sample p sample_suffix i empty_world_def)
qed

subsection \<open>Looking up a station that is not there\<close>

lemma create_response_fields:
  "statusCode (create_response c b None) = c" "body (create_response c b None) = json_dumps b"
  by (simp_all add: create_response_def)

text \<open>
  Claim C7. Let the request carry a station id that is a non-empty string. If the fast
  store can be read and has no row for the id, \<^verbatim>\<open>get_station_by_id\<close> returns
  \<^verbatim>\<open>None\<close> (it does not raise) and the handler answers 404 with the body
  \<^verbatim>\<open>{"error": "Not found", "message": "Station {id} not found"}\<close>. If the fast store
  cannot be read, \<^verbatim>\<open>get_station_by_id\<close> raises and the handler answers 500.
\<close>

theorem station_not_found:
  assumes "map_of event ''pathParameters'' = Some (PDict params)"
    and "map_of params ''station_id'' = Some (PStr sid)" and "sid \<noteq> []"
  shows "(dynamodb_up e \<and> table w sid = None \<longrightarrow>
            get_station_by_id e (PStr sid) w = Inr None \<and>
            statusCode (handle_get_station_by_id e event w) = 404 \<and>
            body (handle_get_station_by_id e event w) =
              json_dumps (PDict [(''error'', PStr ''Not found''),
                                 (''message'', PStr (''Station '' @ sid @ '' not found''))])) \<and>
         (\<not> dynamodb_up e \<longrightarrow>
            get_station_by_id e (PStr sid) w = Inl ClientError \<and>
            statusCode (handle_get_station_by_id e event w) = 500 \<and>
            body (handle_get_station_by_id e event w) =
              json_dumps (PDict [(''error'', PStr ''Internal server error''),
                                 (''message'', PStr ''Failed to retrieve station'')]))"
proof (intro conjI impI)
  assume a: "dynamodb_up e \<and> table w sid = None"
  with assms(3) show g: "get_station_by_id e (PStr sid) w = Inr None"
    by (simp add: get_station_by_id_def get_item_def)
  from assms have h: "handle_get_station_by_id e event w =
      create_response 404
        (PDict [(''error'', PStr ''Not found''),
                (''message'', PStr (''Station '' @ sid @ '' not found''))]) None"
    by (simp add: handle_get_station_by_id_def handle_get_station_by_id_try_def dict_get_def g)
  show "statusCode (handle_get_station_by_id e event w) = 404"
    by (simp add: h create_response_fields)
  show "body (handle_get_station_by_id e event w) =
              json_dumps (PDict [(''error'', PStr ''Not found''),
                                 (''message'', PStr (''Station '' @ sid @ '' not found''))])"
    by (simp add: h create_response_fields)
next
  assume a: "\<not> dynamodb_up e"
  then show g: "get_station_by_id e (PStr sid) w = Inl ClientError"
    by (simp add: get_station_by_id_def get_item_def)
  from assms have h: "handle_get_station_by_id e event w =
      create_response 500
        (PDict [(''error'', PStr ''Internal server error''),
                (''message'', PStr ''Failed to retrieve station'')]) None"
    by (simp add: handle_get_station_by_id_def handle_get_station_by_id_try_def dict_get_def g)
  show "statusCode (handle_get_station_by_id e event w) = 500"
    by (simp add: h create_response_fields)
  show "body (handle_get_station_by_id e event w) =
              json_dumps (PDict [(''error'', PStr ''Internal server error''),
                                 (''message'', PStr ''Failed to retrieve station'')])"
    by (simp add: h create_response_fields)
qed

theorem station_not_found_witness:
  "get_station_by_id sample_env (PStr ''does-not-exist'') empty_world = Inr None \<and>
   statusCode (handle_get_station_by_id sample_env (query_event ''does-not-exist'')
                 empty_world) = 404 \<and>
   body (handle_get_station_by_id sample_env (query_event ''does-not-exist'') empty_world) =
     json_dumps (PDict [(''error'', PStr ''Not found''),
                        (''message'', PStr ''Station does-not-exist not found'')]) \<and>
   get_station_by_id (sample_env\<lparr>dynamodb_up := False\<rparr>) (PStr ''does-not-exist'')
     empty_world = Inl ClientError \<and>
   statusCode (handle_get_station_by_id (sample_env\<lparr>dynamodb_up := False\<rparr>)
                 (query_event ''does-not-exist'') empty_world) = 500"
proof -
  have q: "map_of (query_event ''does-not-exist'') ''pathParameters'' =
             Some (PDict [(''station_id'', PStr ''does-not-exist'')])"
    by (simp add: query_event_def)
  have p: "map_of [(''station_id'', PStr ''does-not-exist'')] ''station_id'' =
             Some (PStr ''does-not-exist'')"
    by simp
  have n: "''does-not-exist'' \<noteq> []" by simp
  from station_not_found [OF q p n, of sample_env empty_world]
    station_not_found [OF q p n, of "sample_env\<lparr>dynamodb_up := False\<rparr>" empty_world]
  show ?thesis by (simp add: sample_env_def empty_world_def)
qed

end
